theory Spec2Isabelle
  imports Complex_Main
begin

section \<open>JavaScript values\<close>

text \<open>
  The values that cross the SDK's boundary: caller arguments, request bodies and
  parsed JSON responses. An object is the list of its own enumerable properties in
  enumeration order (the order of \<open>Object.entries\<close>); a well-formed object has
  distinct keys. Numbers are the finite doubles, read as rationals (NaN and the
  infinities are left out). A string is the list of the bytes of its UTF-8 form.
\<close>

datatype jsval =
    JUndefined
  | JNull
  | JBool bool
  | JNum rat
  | JStr string
  | JArr "jsval list"
  | JObj "(string \<times> jsval) list"

type_synonym props = "(string \<times> jsval) list"

text \<open>\<open>key in obj\<close> and \<open>obj[key]\<close> (\<open>undefined\<close> for a missing property).\<close>

definition hasProp :: "props \<Rightarrow> string \<Rightarrow> bool" where
  "hasProp ps k = (k \<in> set (map fst ps))"

definition getProp :: "props \<Rightarrow> string \<Rightarrow> jsval" where
  "getProp ps k = (case map_of ps k of None \<Rightarrow> JUndefined | Some v \<Rightarrow> v)"

text \<open>
  Defining a property keeps the position of a key the object already has and appends
  a new key. The spread \<open>{id, ...params}\<close> defines the properties of \<open>params\<close>
  one after the other on the object that holds \<open>id\<close>; spreading \<open>undefined\<close>
  adds nothing.
\<close>

definition setProp :: "props \<Rightarrow> string \<Rightarrow> jsval \<Rightarrow> props" where
  "setProp ps k v =
     (if hasProp ps k then map (\<lambda>(k', v'). if k' = k then (k', v) else (k', v')) ps
      else ps @ [(k, v)])"

fun spread :: "props \<Rightarrow> props \<Rightarrow> props" where
  "spread ps [] = ps"
| "spread ps ((k, v) # qs) = spread (setProp ps k v) qs"

definition spreadOpt :: "props \<Rightarrow> props option \<Rightarrow> props" where
  "spreadOpt ps params = (case params of None \<Rightarrow> ps | Some qs \<Rightarrow> spread ps qs)"

text \<open>\<open>v != undefined\<close>, which is the same test as \<open>v !== undefined && v !== null\<close>.\<close>

definition present :: "jsval \<Rightarrow> bool" where
  "present v = (v \<noteq> JUndefined \<and> v \<noteq> JNull)"

section \<open>The runtime\<close>

text \<open>
  Two functions of the platform are parameters of the model: the regular expression
  behind zod's \<open>.uuid()\<close> (it differs between zod releases) and the number-to-string
  conversion of ECMAScript.
\<close>

record runtime =
  uuidRegex :: "string \<Rightarrow> bool"
  numberToString :: "rat \<Rightarrow> string"

fun joinWith :: "string \<Rightarrow> string list \<Rightarrow> string" where
  "joinWith sep [] = []"
| "joinWith sep [x] = x"
| "joinWith sep (x # y # ys) = x @ sep @ joinWith sep (y # ys)"

text \<open>
  \<open>String(v)\<close>, which is what \<open>v.toString()\<close> and a template literal give on
  the values that are neither \<open>null\<close> nor \<open>undefined\<close>.
\<close>

fun toString :: "runtime \<Rightarrow> jsval \<Rightarrow> string" where
  "toString rt JUndefined = ''undefined''"
| "toString rt JNull = ''null''"
| "toString rt (JBool b) = (if b then ''true'' else ''false'')"
| "toString rt (JNum n) = numberToString rt n"
| "toString rt (JStr s) = s"
| "toString rt (JArr xs) =
     joinWith '','' (map (\<lambda>x. if present x then toString rt x else []) xs)"
| "toString rt (JObj ps) = ''[object Object]''"

section \<open>Schemas and validation (zod)\<close>

datatype pathelem = Key string | Idx nat

datatype issue_code =
    invalid_type
  | invalid_string
  | invalid_enum_value
  | too_small
  | custom string

type_synonym issue = "pathelem list \<times> issue_code"

datatype strcheck = Uuid

datatype numcheck =
    IsInt
  | Positive
  | Nonnegative
  | Refine "rat \<Rightarrow> bool" string

datatype zschema =
    ZString "strcheck list"
  | ZNumber "numcheck list"
  | ZBoolean
  | ZEnum "string list"
  | ZArray zschema
  | ZRecord zschema
  | ZObject "(string \<times> zschema) list"
  | ZOptional zschema
  | ZNullable zschema

fun strIssues :: "runtime \<Rightarrow> string \<Rightarrow> strcheck \<Rightarrow> issue list" where
  "strIssues rt s Uuid = (if uuidRegex rt s then [] else [([], invalid_string)])"

definition isInteger :: "rat \<Rightarrow> bool" where
  "isInteger n = (of_int \<lfloor>n\<rfloor> = n)"

fun numIssues :: "rat \<Rightarrow> numcheck \<Rightarrow> issue list" where
  "numIssues n IsInt = (if isInteger n then [] else [([], invalid_type)])"
| "numIssues n Positive = (if 0 < n then [] else [([], too_small)])"
| "numIssues n Nonnegative = (if 0 \<le> n then [] else [([], too_small)])"
| "numIssues n (Refine p msg) = (if p n then [] else [([], custom msg)])"

definition atPath :: "pathelem \<Rightarrow> issue list \<Rightarrow> issue list" where
  "atPath e is = map (\<lambda>(p, c). (e # p, c)) is"

definition finish :: "issue list \<Rightarrow> jsval \<Rightarrow> issue list + jsval" where
  "finish is v = (if is = [] then Inr v else Inl is)"

text \<open>
  \<open>zparse\<close> is \<open>schema._parse\<close>: the issues of every failing part are collected, and
  a value comes back only when there is none. An object schema is in zod's default
  mode, which drops the properties the shape does not declare; the output lists the
  declared keys in the order of the shape, and keeps a key when the input has it or
  when its parsed value is defined.
\<close>

fun zparse :: "runtime \<Rightarrow> zschema \<Rightarrow> jsval \<Rightarrow> issue list + jsval"
  and zparse_shape :: "runtime \<Rightarrow> (string \<times> zschema) list \<Rightarrow> props \<Rightarrow> issue list \<times> props"
  and zparse_items :: "runtime \<Rightarrow> zschema \<Rightarrow> nat \<Rightarrow> jsval list \<Rightarrow> issue list \<times> jsval list"
  and zparse_entries :: "runtime \<Rightarrow> zschema \<Rightarrow> props \<Rightarrow> issue list \<times> props"
where
  "zparse rt (ZString cs) v =
     (case v of JStr s \<Rightarrow> finish (concat (map (strIssues rt s) cs)) v
      | _ \<Rightarrow> Inl [([], invalid_type)])"
| "zparse rt (ZNumber cs) v =
     (case v of JNum n \<Rightarrow> finish (concat (map (numIssues n) cs)) v
      | _ \<Rightarrow> Inl [([], invalid_type)])"
| "zparse rt ZBoolean v =
     (case v of JBool b \<Rightarrow> Inr v | _ \<Rightarrow> Inl [([], invalid_type)])"
| "zparse rt (ZEnum vs) v =
     (case v of JStr s \<Rightarrow> (if s \<in> set vs then Inr v else Inl [([], invalid_enum_value)])
      | _ \<Rightarrow> Inl [([], invalid_type)])"
| "zparse rt (ZArray s) v =
     (case v of JArr xs \<Rightarrow>
        (case zparse_items rt s 0 xs of (is, ys) \<Rightarrow> finish is (JArr ys))
      | _ \<Rightarrow> Inl [([], invalid_type)])"
| "zparse rt (ZRecord s) v =
     (case v of JObj ps \<Rightarrow>
        (case zparse_entries rt s ps of (is, out) \<Rightarrow> finish is (JObj out))
      | _ \<Rightarrow> Inl [([], invalid_type)])"
| "zparse rt (ZObject shape) v =
     (case v of JObj ps \<Rightarrow>
        (case zparse_shape rt shape ps of (is, out) \<Rightarrow> finish is (JObj out))
      | _ \<Rightarrow> Inl [([], invalid_type)])"
| "zparse rt (ZOptional s) v = (if v = JUndefined then Inr JUndefined else zparse rt s v)"
| "zparse rt (ZNullable s) v = (if v = JNull then Inr JNull else zparse rt s v)"
| "zparse_shape rt [] ps = ([], [])"
| "zparse_shape rt ((k, s) # shape) ps =
     (case zparse_shape rt shape ps of (is, out) \<Rightarrow>
        (case zparse rt s (getProp ps k) of
           Inl e \<Rightarrow> (atPath (Key k) e @ is, out)
         | Inr w \<Rightarrow> (is, if w \<noteq> JUndefined \<or> hasProp ps k then (k, w) # out else out)))"
| "zparse_items rt s i [] = ([], [])"
| "zparse_items rt s i (x # xs) =
     (case zparse_items rt s (Suc i) xs of (is, ys) \<Rightarrow>
        (case zparse rt s x of
           Inl e \<Rightarrow> (atPath (Idx i) e @ is, ys)
         | Inr w \<Rightarrow> (is, w # ys)))"
| "zparse_entries rt s [] = ([], [])"
| "zparse_entries rt s ((k, x) # ps) =
     (case zparse_entries rt s ps of (is, out) \<Rightarrow>
        (case zparse rt s x of
           Inl e \<Rightarrow> (atPath (Key k) e @ is, out)
         | Inr w \<Rightarrow> (is, (k, w) # out)))"

text \<open>
  \<open>schema.parse(v)\<close> returns the parsed value or throws a \<open>ZodError\<close> with the
  issues. The transport may reject with an error of its own, which stays opaque.
\<close>

datatype 'e error = ZodError "issue list" | TransportError 'e

definition parse :: "runtime \<Rightarrow> zschema \<Rightarrow> jsval \<Rightarrow> 'e error + jsval" where
  "parse rt schema v = (case zparse rt schema v of Inl is \<Rightarrow> Inl (ZodError is) | Inr w \<Rightarrow> Inr w)"

text \<open>Property access \<open>v.key\<close> on a parsed value.\<close>

definition member :: "jsval \<Rightarrow> string \<Rightarrow> jsval" where
  "member v k = (case v of JObj ps \<Rightarrow> getProp ps k | _ \<Rightarrow> JUndefined)"

section \<open>Requests\<close>

datatype http_method = GET | POST | PUT | DELETE

datatype request = Request (httpMethod: http_method) (path: string) (body: jsval)

text \<open>
  \<open>client.request(method, path, body?)\<close> either rejects or resolves to the raw
  response; a request without a body has the body \<open>undefined\<close>. An operation's
  outcome is the list of the requests it issued, in order, and what it returns or
  throws.
\<close>

type_synonym 'e transport = "request \<Rightarrow> 'e + jsval"

type_synonym 'e outcome = "request list \<times> ('e error + jsval)"

definition throw :: "'e error \<Rightarrow> 'e outcome" where
  "throw err = ([], Inl err)"

definition await_request ::
  "'e transport \<Rightarrow> request \<Rightarrow> (jsval \<Rightarrow> 'e error + jsval) \<Rightarrow> 'e outcome" where
  "await_request client req cont =
     ([req], case client req of Inl e \<Rightarrow> Inl (TransportError e) | Inr response \<Rightarrow> cont response)"

subsection \<open>Query strings\<close>

text \<open>
  \<open>URLSearchParams\<close> is the list of its name-value pairs; \<open>toString\<close> is the
  \<open>application/x-www-form-urlencoded\<close> serializer: letters, digits and \<open>*-._\<close> stay,
  a space becomes \<open>+\<close>, every other byte becomes \<open>%XX\<close>.
\<close>

definition hexDigit :: "nat \<Rightarrow> char" where
  "hexDigit n = ''0123456789ABCDEF'' ! (n mod 16)"

definition unreserved :: "char \<Rightarrow> bool" where
  "unreserved c =
     (c \<in> set ''abcdefghijklmnopqrstuvwxyzABCDEFGHIJKLMNOPQRSTUVWXYZ0123456789*-._'')"

definition encodeByte :: "char \<Rightarrow> string" where
  "encodeByte c =
     (if unreserved c then [c]
      else if c = CHR '' '' then ''+''
      else [CHR ''%'', hexDigit (of_char c div 16), hexDigit (of_char c)])"

definition formEncode :: "string \<Rightarrow> string" where
  "formEncode s = concat (map encodeByte s)"

definition URLSearchParams_toString :: "(string \<times> string) list \<Rightarrow> string" where
  "URLSearchParams_toString qp =
     joinWith ''&'' (map (\<lambda>(k, v). formEncode k @ ''='' @ formEncode v) qp)"

text \<open>\<open>if (v !== undefined && v !== null) queryParams.append(key, v.toString())\<close>\<close>

definition appendIfPresent :: "runtime \<Rightarrow> string \<Rightarrow> jsval \<Rightarrow> (string \<times> string) list" where
  "appendIfPresent rt k v = (if present v then [(k, toString rt v)] else [])"

text \<open>\<open>Object.entries(params).forEach(([key, value]) => { if (value != undefined) ... })\<close>\<close>

definition appendEntries :: "runtime \<Rightarrow> props \<Rightarrow> (string \<times> string) list" where
  "appendEntries rt ps = concat (map (\<lambda>(k, v). appendIfPresent rt k v) ps)"

text \<open>\<open>queryString ? `${base}?${queryString}` : base\<close>\<close>

definition withQuery :: "string \<Rightarrow> string \<Rightarrow> string" where
  "withQuery base queryString = (if queryString = [] then base else base @ ''?'' @ queryString)"

subsection \<open>JSON bodies\<close>

text \<open>
  What \<open>JSON.stringify\<close> keeps of a body: a property whose value is \<open>undefined\<close>
  is left out, \<open>null\<close> stays, and \<open>undefined\<close> inside an array becomes \<open>null\<close>.
\<close>

fun jsonForm :: "jsval \<Rightarrow> jsval" where
  "jsonForm (JObj ps) = JObj (map (\<lambda>(k, v). (k, jsonForm v)) (filter (\<lambda>(k, v). v \<noteq> JUndefined) ps))"
| "jsonForm (JArr xs) = JArr (map (\<lambda>x. if x = JUndefined then JNull else jsonForm x) xs)"
| "jsonForm v = v"

definition jsonKeys :: "jsval \<Rightarrow> string list" where
  "jsonKeys b = (case jsonForm b of JObj ps \<Rightarrow> map fst ps | _ \<Rightarrow> [])"

section \<open>The schemas\<close>

abbreviation zstring :: zschema where "zstring \<equiv> ZString []"
abbreviation zuuid :: zschema where "zuuid \<equiv> ZString [Uuid]"
abbreviation znumber :: zschema where "znumber \<equiv> ZNumber []"
abbreviation zint :: zschema where "zint \<equiv> ZNumber [IsInt]"
abbreviation zposint :: zschema where "zposint \<equiv> ZNumber [IsInt, Positive]"
abbreviation znatint :: zschema where "znatint \<equiv> ZNumber [IsInt, Nonnegative]"

text \<open>\<open>s.optional().nullable()\<close>\<close>

abbreviation optnull :: "zschema \<Rightarrow> zschema" where
  "optnull s \<equiv> ZNullable (ZOptional s)"

subsection \<open>validation/wallet.ts\<close>

definition accountBalanceDetailsSchema :: zschema where
  "accountBalanceDetailsSchema = ZObject
     [(''type'', ZNumber [IsInt, Refine (\<lambda>val. val = 0) ''Type must be 0 (EVM)'']),
      (''ticker'', zstring),
      (''chainId'', zposint),
      (''tokenAddress'', zstring),
      (''accountAddress'', zstring),
      (''balance'', zstring),
      (''decimals'', znatint)]"

definition walletShape :: "(string \<times> zschema) list" where
  "walletShape =
     [(''id'', zuuid),
      (''accountAddress'', zstring),
      (''businessId'', ZNullable zuuid),
      (''userId'', ZNullable zuuid),
      (''chainId'', zposint),
      (''name'', zstring),
      (''description'', zstring),
      (''isAdmin'', ZBoolean),
      (''accountBalanceDetails'', ZNullable accountBalanceDetailsSchema),
      (''erc7702ContractAddress'', ZNullable zstring),
      (''updated'', znumber),
      (''created'', znumber)]"

definition walletSchema :: zschema where
  "walletSchema = ZObject walletShape"

definition walletListSchema :: zschema where
  "walletListSchema = ZObject
     [(''response'', ZArray walletSchema),
      (''page'', zposint),
      (''pageSize'', zposint),
      (''totalResults'', znatint)]"

definition listWalletsSchema :: zschema where
  "listWalletsSchema = ZObject
     [(''businessId'', zuuid),
      (''chainId'', optnull zposint),
      (''pageSize'', optnull zposint),
      (''page'', optnull zposint),
      (''name'', optnull zstring)]"

definition createWalletSchema :: zschema where
  "createWalletSchema = ZObject
     [(''businessId'', zuuid),
      (''chainId'', zposint),
      (''name'', zstring),
      (''description'', optnull zstring)]"

definition getWalletSchema :: zschema where
  "getWalletSchema = ZObject
     [(''walletId'', zuuid),
      (''includeBalances'', optnull ZBoolean)]"

definition updateWalletSchema :: zschema where
  "updateWalletSchema = ZObject
     [(''walletId'', zuuid),
      (''name'', optnull zstring),
      (''description'', optnull zstring)]"

definition deleteWalletSchema :: zschema where
  "deleteWalletSchema = ZObject [(''walletId'', zuuid)]"

definition transferWalletSchema :: zschema where
  "transferWalletSchema = ZObject
     [(''walletId'', zuuid),
      (''destinationAccountAddress'', zstring),
      (''transferAmount'', optnull zstring),
      (''memo'', ZOptional zstring)]"

definition delegationSchema :: zschema where
  "delegationSchema = ZObject
     [(''id'', zuuid),
      (''businessId'', zuuid),
      (''escrowWalletId'', zuuid),
      (''delegatorAddress'', zstring),
      (''startTime'', ZNullable znumber),
      (''endTime'', ZNullable znumber),
      (''contractAddresses'', optnull (ZArray zstring)),
      (''methods'', optnull (ZArray zstring)),
      (''delegationData'', zstring),
      (''updated'', znumber),
      (''created'', znumber)]"

definition delegationListSchema :: zschema where
  "delegationListSchema = ZObject
     [(''response'', ZArray delegationSchema),
      (''page'', zposint),
      (''pageSize'', zposint),
      (''totalResults'', znatint)]"

definition listDelegationsSchema :: zschema where
  "listDelegationsSchema = ZObject
     [(''walletId'', zuuid),
      (''pageSize'', optnull zposint),
      (''page'', optnull zposint)]"

definition createDelegationSchema :: zschema where
  "createDelegationSchema = ZObject
     [(''walletId'', zuuid),
      (''startTime'', optnull znumber),
      (''endTime'', optnull znumber),
      (''contractAddresses'', optnull (ZArray zstring)),
      (''methods'', optnull (ZArray zstring)),
      (''delegationData'', zstring)]"

definition deleteDelegationSchema :: zschema where
  "deleteDelegationSchema = ZObject [(''delegationId'', zuuid)]"

definition getSignatureSchema :: zschema where
  "getSignatureSchema = ZObject
     [(''walletId'', zuuid),
      (''type'', ZEnum [''erc3009'', ''permit2'']),
      (''contractAddress'', zstring),
      (''destinationAddress'', zstring),
      (''amount'', optnull zstring),
      (''validUntil'', optnull znumber),
      (''validAfter'', optnull znumber),
      (''fromAddress'', optnull zstring)]"

definition signatureResponseSchema :: zschema where
  "signatureResponseSchema = ZObject
     [(''signature'', zstring),
      (''data'', zstring)]"

subsection \<open>validation/contractEvent.ts\<close>

definition topicSchema :: zschema where
  "topicSchema = ZObject
     [(''name'', zstring),
      (''indexed'', ZBoolean)]"

definition contractEventLogSchema :: zschema where
  "contractEventLogSchema = ZObject
     [(''eventName'', zstring),
      (''blockNumber'', zint),
      (''transactionHash'', zstring),
      (''logIndex'', zint),
      (''removed'', ZBoolean),
      (''topics'', ZRecord zstring)]"

definition contractEventSchema :: zschema where
  "contractEventSchema = ZObject
     [(''id'', zuuid),
      (''businessId'', zuuid),
      (''chainId'', zint),
      (''contractAddress'', zstring),
      (''name'', zstring),
      (''description'', zstring),
      (''eventName'', zstring),
      (''topicHash'', zstring),
      (''topics'', ZArray topicSchema),
      (''updated'', zint),
      (''created'', zint)]"

definition contractEventListSchema :: zschema where
  "contractEventListSchema = ZObject
     [(''response'', ZArray contractEventSchema),
      (''page'', zposint),
      (''pageSize'', zposint),
      (''totalResults'', znatint)]"

definition createContractEventSchema :: zschema where
  "createContractEventSchema = ZObject
     [(''businessId'', zuuid),
      (''chainId'', zint),
      (''contractAddress'', zstring),
      (''name'', zstring),
      (''description'', zstring),
      (''eventName'', zstring)]"

definition listContractEventsSchema :: zschema where
  "listContractEventsSchema = ZObject
     [(''businessId'', zuuid),
      (''pageSize'', optnull zposint),
      (''page'', optnull zposint),
      (''chainId'', optnull zint),
      (''name'', optnull zstring),
      (''status'', optnull (ZEnum [''active'', ''deleted'', ''all''])),
      (''contractAddress'', optnull zstring),
      (''eventName'', optnull zstring)]"

definition getContractEventSchema :: zschema where
  "getContractEventSchema = ZObject [(''contractEventId'', zuuid)]"

definition updateContractEventSchema :: zschema where
  "updateContractEventSchema = ZObject
     [(''name'', ZOptional zstring),
      (''description'', ZOptional zstring)]"

definition deleteContractEventSchema :: zschema where
  "deleteContractEventSchema = ZObject [(''contractEventId'', zuuid)]"

definition searchContractEventLogsSchema :: zschema where
  "searchContractEventLogsSchema = ZObject
     [(''startBlock'', optnull zint),
      (''endBlock'', optnull zint),
      (''topics'', optnull (ZRecord zstring))]"

definition contractEventSearchResultSchema :: zschema where
  "contractEventSearchResultSchema = ZObject
     [(''logs'', ZArray contractEventLogSchema),
      (''error'', optnull zstring),
      (''maxResults'', optnull zint),
      (''startBlock'', optnull zint),
      (''endBlock'', optnull zint)]"

section \<open>The resource clients\<close>

subsection \<open>class Wallets\<close>

definition Wallets_list ::
  "runtime \<Rightarrow> 'e transport \<Rightarrow> string \<Rightarrow> props option \<Rightarrow> 'e outcome" where
  "Wallets_list rt client businessId params =
     (case parse rt listWalletsSchema
             (JObj (spreadOpt [(''businessId'', JStr businessId)] params)) of
        Inl err \<Rightarrow> throw err
      | Inr validatedParams \<Rightarrow>
          (let queryParams = (case params of None \<Rightarrow> [] | Some ps \<Rightarrow> appendEntries rt ps);
               queryString = URLSearchParams_toString queryParams;
               path = withQuery
                 (''/business/'' @ toString rt (member validatedParams ''businessId'') @ ''/wallets'')
                 queryString
           in await_request client (Request GET path JUndefined)
                (parse rt walletListSchema)))"

definition Wallets_create ::
  "runtime \<Rightarrow> 'e transport \<Rightarrow> string \<Rightarrow> props \<Rightarrow> 'e outcome" where
  "Wallets_create rt client businessId params =
     (case parse rt createWalletSchema
             (JObj (spread [(''businessId'', JStr businessId)] params)) of
        Inl err \<Rightarrow> throw err
      | Inr validatedParams \<Rightarrow>
          await_request client
            (Request POST
               (''/business/'' @ toString rt (member validatedParams ''businessId'') @ ''/wallets'')
               (JObj [(''chainId'', member validatedParams ''chainId''),
                      (''name'', member validatedParams ''name''),
                      (''description'', member validatedParams ''description'')]))
            (parse rt walletSchema))"

definition Wallets_get ::
  "runtime \<Rightarrow> 'e transport \<Rightarrow> string \<Rightarrow> jsval \<Rightarrow> 'e outcome" where
  "Wallets_get rt client walletId includeBalances =
     (case parse rt getWalletSchema
             (JObj [(''walletId'', JStr walletId), (''includeBalances'', includeBalances)]) of
        Inl err \<Rightarrow> throw err
      | Inr validatedParams \<Rightarrow>
          (let queryParams =
                 appendIfPresent rt ''includeBalances'' (member validatedParams ''includeBalances'');
               queryString = URLSearchParams_toString queryParams;
               path = withQuery
                 (''/wallets/'' @ toString rt (member validatedParams ''walletId''))
                 queryString
           in await_request client (Request GET path JUndefined)
                (parse rt walletSchema)))"

definition Wallets_update ::
  "runtime \<Rightarrow> 'e transport \<Rightarrow> string \<Rightarrow> props \<Rightarrow> 'e outcome" where
  "Wallets_update rt client walletId params =
     (case parse rt updateWalletSchema
             (JObj (spread [(''walletId'', JStr walletId)] params)) of
        Inl err \<Rightarrow> throw err
      | Inr validatedParams \<Rightarrow>
          await_request client
            (Request PUT
               (''/wallets/'' @ toString rt (member validatedParams ''walletId''))
               (JObj [(''name'', member validatedParams ''name''),
                      (''description'', member validatedParams ''description'')]))
            (parse rt walletSchema))"

definition Wallets_delete ::
  "runtime \<Rightarrow> 'e transport \<Rightarrow> string \<Rightarrow> 'e outcome" where
  "Wallets_delete rt client walletId =
     (case parse rt deleteWalletSchema (JObj [(''walletId'', JStr walletId)]) of
        Inl err \<Rightarrow> throw err
      | Inr validatedParams \<Rightarrow>
          await_request client
            (Request DELETE
               (''/wallets/'' @ toString rt (member validatedParams ''walletId''))
               JUndefined)
            Inr)"

definition Wallets_transfer ::
  "runtime \<Rightarrow> 'e transport \<Rightarrow> string \<Rightarrow> props \<Rightarrow> 'e outcome" where
  "Wallets_transfer rt client walletId params =
     (case parse rt transferWalletSchema
             (JObj (spread [(''walletId'', JStr walletId)] params)) of
        Inl err \<Rightarrow> throw err
      | Inr validatedParams \<Rightarrow>
          await_request client
            (Request POST
               (''/wallets/'' @ toString rt (member validatedParams ''walletId'') @ ''/transfer'')
               (JObj [(''destinationAccountAddress'',
                         member validatedParams ''destinationAccountAddress''),
                      (''transferAmount'', member validatedParams ''transferAmount''),
                      (''memo'', member validatedParams ''memo'')]))
            Inr)"

definition Wallets_listDelegations ::
  "runtime \<Rightarrow> 'e transport \<Rightarrow> string \<Rightarrow> props option \<Rightarrow> 'e outcome" where
  "Wallets_listDelegations rt client walletId params =
     (case parse rt listDelegationsSchema
             (JObj (spreadOpt [(''walletId'', JStr walletId)] params)) of
        Inl err \<Rightarrow> throw err
      | Inr validatedParams \<Rightarrow>
          (let queryParams = (case params of None \<Rightarrow> [] | Some ps \<Rightarrow> appendEntries rt ps);
               queryString = URLSearchParams_toString queryParams;
               path = withQuery
                 (''/wallets/'' @ toString rt (member validatedParams ''walletId'') @ ''/delegations'')
                 queryString
           in await_request client (Request GET path JUndefined)
                (parse rt delegationListSchema)))"

definition Wallets_createDelegation ::
  "runtime \<Rightarrow> 'e transport \<Rightarrow> string \<Rightarrow> props \<Rightarrow> 'e outcome" where
  "Wallets_createDelegation rt client walletId params =
     (case parse rt createDelegationSchema
             (JObj (spread [(''walletId'', JStr walletId)] params)) of
        Inl err \<Rightarrow> throw err
      | Inr validatedParams \<Rightarrow>
          await_request client
            (Request POST
               (''/wallets/'' @ toString rt (member validatedParams ''walletId'') @ ''/delegations'')
               (JObj [(''startTime'', member validatedParams ''startTime''),
                      (''endTime'', member validatedParams ''endTime''),
                      (''contractAddresses'', member validatedParams ''contractAddresses''),
                      (''methods'', member validatedParams ''methods''),
                      (''delegationData'', member validatedParams ''delegationData'')]))
            (parse rt delegationSchema))"

definition Wallets_deleteDelegation ::
  "runtime \<Rightarrow> 'e transport \<Rightarrow> string \<Rightarrow> 'e outcome" where
  "Wallets_deleteDelegation rt client delegationId =
     (case parse rt deleteDelegationSchema (JObj [(''delegationId'', JStr delegationId)]) of
        Inl err \<Rightarrow> throw err
      | Inr validatedParams \<Rightarrow>
          await_request client
            (Request DELETE
               (''/delegation/'' @ toString rt (member validatedParams ''delegationId''))
               JUndefined)
            Inr)"

definition Wallets_getSignature ::
  "runtime \<Rightarrow> 'e transport \<Rightarrow> string \<Rightarrow> string \<Rightarrow> props \<Rightarrow> 'e outcome" where
  "Wallets_getSignature rt client walletId type params =
     (case parse rt getSignatureSchema
             (JObj (spread [(''walletId'', JStr walletId), (''type'', JStr type)] params)) of
        Inl err \<Rightarrow> throw err
      | Inr validatedParams \<Rightarrow>
          (let queryParams =
                 [(''contractAddress'', toString rt (member validatedParams ''contractAddress'')),
                  (''destinationAddress'', toString rt (member validatedParams ''destinationAddress''))]
                 @ appendIfPresent rt ''amount'' (member validatedParams ''amount'')
                 @ appendIfPresent rt ''validUntil'' (member validatedParams ''validUntil'')
                 @ appendIfPresent rt ''validAfter'' (member validatedParams ''validAfter'')
                 @ appendIfPresent rt ''fromAddress'' (member validatedParams ''fromAddress'');
               queryString = URLSearchParams_toString queryParams;
               path = ''/wallets/'' @ toString rt (member validatedParams ''walletId'')
                      @ ''/signature/'' @ toString rt (member validatedParams ''type'')
                      @ ''?'' @ queryString
           in await_request client (Request GET path JUndefined)
                (parse rt signatureResponseSchema)))"

subsection \<open>class ContractEvents\<close>

definition ContractEvents_create ::
  "runtime \<Rightarrow> 'e transport \<Rightarrow> string \<Rightarrow> props \<Rightarrow> 'e outcome" where
  "ContractEvents_create rt client businessId params =
     (case parse rt createContractEventSchema
             (JObj (spread [(''businessId'', JStr businessId)] params)) of
        Inl err \<Rightarrow> throw err
      | Inr validatedParams \<Rightarrow>
          await_request client
            (Request POST
               (''/business/'' @ toString rt (member validatedParams ''businessId'') @ ''/events'')
               validatedParams)
            (parse rt contractEventSchema))"

definition ContractEvents_list ::
  "runtime \<Rightarrow> 'e transport \<Rightarrow> string \<Rightarrow> props option \<Rightarrow> 'e outcome" where
  "ContractEvents_list rt client businessId params =
     (case parse rt listContractEventsSchema
             (JObj (spreadOpt [(''businessId'', JStr businessId)] params)) of
        Inl err \<Rightarrow> throw err
      | Inr validatedParams \<Rightarrow>
          (let queryParams =
                 appendIfPresent rt ''pageSize'' (member validatedParams ''pageSize'')
                 @ appendIfPresent rt ''page'' (member validatedParams ''page'')
                 @ appendIfPresent rt ''chainId'' (member validatedParams ''chainId'')
                 @ appendIfPresent rt ''name'' (member validatedParams ''name'')
                 @ appendIfPresent rt ''status'' (member validatedParams ''status'')
                 @ appendIfPresent rt ''contractAddress'' (member validatedParams ''contractAddress'')
                 @ appendIfPresent rt ''eventName'' (member validatedParams ''eventName'');
               queryString = URLSearchParams_toString queryParams;
               path = withQuery
                 (''/business/'' @ toString rt (member validatedParams ''businessId'') @ ''/events'')
                 queryString
           in await_request client (Request GET path JUndefined)
                (parse rt contractEventListSchema)))"

definition ContractEvents_get ::
  "runtime \<Rightarrow> 'e transport \<Rightarrow> string \<Rightarrow> 'e outcome" where
  "ContractEvents_get rt client contractEventId =
     (case parse rt getContractEventSchema (JObj [(''contractEventId'', JStr contractEventId)]) of
        Inl err \<Rightarrow> throw err
      | Inr validatedParams \<Rightarrow>
          await_request client
            (Request GET
               (''/events/'' @ toString rt (member validatedParams ''contractEventId''))
               JUndefined)
            (parse rt contractEventSchema))"

definition ContractEvents_update ::
  "runtime \<Rightarrow> 'e transport \<Rightarrow> string \<Rightarrow> props \<Rightarrow> 'e outcome" where
  "ContractEvents_update rt client contractEventId params =
     (case parse rt updateContractEventSchema (JObj params) of
        Inl err \<Rightarrow> throw err
      | Inr validatedParams \<Rightarrow>
          await_request client
            (Request PUT (''/events/'' @ contractEventId) validatedParams)
            (parse rt contractEventSchema))"

definition ContractEvents_delete ::
  "runtime \<Rightarrow> 'e transport \<Rightarrow> string \<Rightarrow> 'e outcome" where
  "ContractEvents_delete rt client contractEventId =
     (case parse rt deleteContractEventSchema (JObj [(''contractEventId'', JStr contractEventId)]) of
        Inl err \<Rightarrow> throw err
      | Inr validatedParams \<Rightarrow>
          await_request client
            (Request DELETE
               (''/events/'' @ toString rt (member validatedParams ''contractEventId''))
               JUndefined)
            Inr)"

text \<open>\<open>params || {}\<close>: an object is truthy, a missing argument is not.\<close>

definition orEmpty :: "props option \<Rightarrow> props" where
  "orEmpty params = (case params of None \<Rightarrow> [] | Some ps \<Rightarrow> ps)"

definition ContractEvents_searchLogs ::
  "runtime \<Rightarrow> 'e transport \<Rightarrow> string \<Rightarrow> props option \<Rightarrow> 'e outcome" where
  "ContractEvents_searchLogs rt client contractEventId params =
     (case parse rt searchContractEventLogsSchema (JObj (orEmpty params)) of
        Inl err \<Rightarrow> throw err
      | Inr validatedParams \<Rightarrow>
          await_request client
            (Request POST (''/events/'' @ contractEventId @ ''/search'') validatedParams)
            (parse rt contractEventSearchResultSchema))"

section \<open>A concrete runtime\<close>

text \<open>
  A runtime for the closed examples: the pattern of zod 3, \<open>8-4-4-4-12\<close>
  hexadecimal digits of either case, and ECMAScript's number-to-string conversion on
  the safe integers (those of absolute value at most \<open>2^53 - 1\<close>), whose string is
  their decimal numeral. On every other number \<open>decimal\<close> gives the placeholder
  \<open>?\<close>, which is not ECMAScript's string; no example converts such a number. The
  general theorems hold for every runtime.
\<close>

definition isHex :: "char \<Rightarrow> bool" where
  "isHex c = (c \<in> set ''0123456789abcdefABCDEF'')"

fun matchUuid :: "nat list \<Rightarrow> string \<Rightarrow> bool" where
  "matchUuid [] s = (s = [])"
| "matchUuid (n # ns) s =
     (length s \<ge> n \<and> list_all isHex (take n s) \<and>
      (if ns = [] then drop n s = []
       else (case drop n s of c # cs \<Rightarrow> c = CHR ''-'' \<and> matchUuid ns cs | [] \<Rightarrow> False)))"

definition uuidV3 :: "string \<Rightarrow> bool" where
  "uuidV3 s = matchUuid [8, 4, 4, 4, 12] s"

fun digits :: "nat \<Rightarrow> string" where
  "digits n = (if n < 10 then [hexDigit n] else digits (n div 10) @ [hexDigit (n mod 10)])"

definition isSafeInteger :: "rat \<Rightarrow> bool" where
  "isSafeInteger n = (isInteger n \<and> \<bar>n\<bar> \<le> 2 ^ 53 - 1)"

definition decimal :: "rat \<Rightarrow> string" where
  "decimal n =
     (if isSafeInteger n
      then (if n < 0 then ''-'' else []) @ digits (nat \<bar>\<lfloor>n\<rfloor>\<bar>)
      else ''?'')"

definition node :: runtime where
  "node = \<lparr> uuidRegex = uuidV3, numberToString = decimal \<rparr>"

text \<open>A transport for the closed examples: it resolves every request to the same response.\<close>

definition respond :: "jsval \<Rightarrow> unit transport" where
  "respond v req = Inr v"

text \<open>
  A wallet for the closed examples, as a server may send it: the keys are not in the
  order of the schema, and the balance snapshot is present.
\<close>

definition exampleWallet :: jsval where
  "exampleWallet = JObj
     [(''name'', JStr ''main''),
      (''id'', JStr ''123e4567-e89b-12d3-a456-426614174000''),
      (''accountAddress'', JStr ''0xabc''),
      (''businessId'', JStr ''123e4567-e89b-12d3-a456-426614174001''),
      (''userId'', JNull),
      (''chainId'', JNum 1),
      (''description'', JStr ''d''),
      (''isAdmin'', JBool False),
      (''accountBalanceDetails'', JObj
         [(''ticker'', JStr ''ETH''),
          (''type'', JNum 0),
          (''chainId'', JNum 1),
          (''tokenAddress'', JStr []),
          (''accountAddress'', JStr ''0xabc''),
          (''balance'', JStr ''10''),
          (''decimals'', JNum 18)]),
      (''erc7702ContractAddress'', JNull),
      (''created'', JNum 1700000000),
      (''updated'', JNum (3401234567 / 2))]"

section \<open>Predicates of the specification\<close>

text \<open>
  The operation threw a validation error before any request went out.
\<close>

definition rejected :: "'e outcome \<Rightarrow> bool" where
  "rejected out =
     (fst out = [] \<and> (case snd out of Inl (ZodError is) \<Rightarrow> True | _ \<Rightarrow> False))"

text \<open>
  The params object carries a valid UUID string under the key \<open>k\<close>: the one case
  in which the spread \<open>{id, ...params}\<close> puts a valid ID where the caller supplied
  a malformed one.
\<close>

definition validId :: "runtime \<Rightarrow> jsval \<Rightarrow> bool" where
  "validId rt v = (case v of JStr s \<Rightarrow> uuidRegex rt s | _ \<Rightarrow> False)"

definition replacesId :: "runtime \<Rightarrow> props \<Rightarrow> string \<Rightarrow> bool" where
  "replacesId rt ps k = list_ex (\<lambda>p. fst p = k \<and> validId rt (snd p)) ps"


text \<open>The keys of the body object of each request issued.\<close>

definition bodyKeys :: "'e outcome \<Rightarrow> string list list" where
  "bodyKeys out = map (\<lambda>req. case body req of JObj ps \<Rightarrow> map fst ps | _ \<Rightarrow> []) (fst out)"

text \<open>
  Deep equality of two values; the properties of an object may come in any order.
\<close>

fun deepEqual :: "jsval \<Rightarrow> jsval \<Rightarrow> bool"
  and deepEqualList :: "jsval list \<Rightarrow> jsval list \<Rightarrow> bool"
  and deepEqualProps :: "props \<Rightarrow> props \<Rightarrow> bool"
where
  "deepEqual v w =
     (case v of
        JArr xs \<Rightarrow> (case w of JArr ys \<Rightarrow> deepEqualList xs ys | _ \<Rightarrow> False)
      | JObj a \<Rightarrow> (case w of JObj b \<Rightarrow> length a = length b \<and> deepEqualProps a b | _ \<Rightarrow> False)
      | _ \<Rightarrow> v = w)"
| "deepEqualList [] ys = (ys = [])"
| "deepEqualList (x # xs) ys =
     (case ys of [] \<Rightarrow> False | y # ys' \<Rightarrow> deepEqual x y \<and> deepEqualList xs ys')"
| "deepEqualProps [] b = True"
| "deepEqualProps ((k, v) # a) b =
     (hasProp b k \<and> deepEqual v (getProp b k) \<and> deepEqualProps a b)"

text \<open>
  A value conforms exactly to a schema: it has the declared type, passes every check,
  and an object has distinct keys, no key the shape does not declare, and a conforming
  value under every declared key.
\<close>

fun conformsTo :: "runtime \<Rightarrow> zschema \<Rightarrow> jsval \<Rightarrow> bool"
  and conformsShape :: "runtime \<Rightarrow> (string \<times> zschema) list \<Rightarrow> props \<Rightarrow> bool"
where
  "conformsTo rt (ZString cs) v =
     (case v of JStr s \<Rightarrow> list_all (\<lambda>c. strIssues rt s c = []) cs | _ \<Rightarrow> False)"
| "conformsTo rt (ZNumber cs) v =
     (case v of JNum n \<Rightarrow> list_all (\<lambda>c. numIssues n c = []) cs | _ \<Rightarrow> False)"
| "conformsTo rt ZBoolean v = (case v of JBool b \<Rightarrow> True | _ \<Rightarrow> False)"
| "conformsTo rt (ZEnum vs) v = (case v of JStr s \<Rightarrow> s \<in> set vs | _ \<Rightarrow> False)"
| "conformsTo rt (ZArray s) v =
     (case v of JArr xs \<Rightarrow> list_all (conformsTo rt s) xs | _ \<Rightarrow> False)"
| "conformsTo rt (ZRecord s) v =
     (case v of JObj ps \<Rightarrow>
        distinct (map fst ps) \<and> list_all (\<lambda>p. conformsTo rt s (snd p)) ps
      | _ \<Rightarrow> False)"
| "conformsTo rt (ZObject shape) v =
     (case v of JObj ps \<Rightarrow>
        distinct (map fst ps) \<and> list_all (\<lambda>k. k \<in> set (map fst shape)) (map fst ps)
        \<and> conformsShape rt shape ps
      | _ \<Rightarrow> False)"
| "conformsTo rt (ZOptional s) v = (v = JUndefined \<or> conformsTo rt s v)"
| "conformsTo rt (ZNullable s) v = (v = JNull \<or> conformsTo rt s v)"
| "conformsShape rt [] ps = True"
| "conformsShape rt ((k, s) # shape) ps =
     (conformsTo rt s (getProp ps k) \<and> conformsShape rt shape ps)"

text \<open>Every object shape of a schema declares each key once.\<close>

fun distinctKeys :: "zschema \<Rightarrow> bool"
  and distinctKeysShape :: "(string \<times> zschema) list \<Rightarrow> bool"
where
  "distinctKeys (ZArray s) = distinctKeys s"
| "distinctKeys (ZRecord s) = distinctKeys s"
| "distinctKeys (ZObject shape) = (distinct (map fst shape) \<and> distinctKeysShape shape)"
| "distinctKeys (ZOptional s) = distinctKeys s"
| "distinctKeys (ZNullable s) = distinctKeys s"
| "distinctKeys s = True"
| "distinctKeysShape [] = True"
| "distinctKeysShape ((k, s) # shape) = (distinctKeys s \<and> distinctKeysShape shape)"

text \<open>
  How an optional field \<open>f\<close> of the params object \<open>ps\<close> reaches the JSON body of
  every request issued: it is a key of the body exactly when it was supplied with a
  value other than \<open>undefined\<close>, and a supplied \<open>null\<close> is sent as \<open>null\<close>.
\<close>

definition sendsOptional :: "props \<Rightarrow> string \<Rightarrow> 'e outcome \<Rightarrow> bool" where
  "sendsOptional ps f out =
     list_all (\<lambda>req.
        (f \<in> set (jsonKeys (body req))) = (getProp ps f \<noteq> JUndefined)
        \<and> (getProp ps f = JNull \<longrightarrow> member (jsonForm (body req)) f = JNull))
       (fst out)"

section \<open>Lemmas about objects and validation\<close>

subsection \<open>Objects\<close>

lemma getProp_Cons: "getProp ((k', v) # ps) k = (if k = k' then v else getProp ps k)"
  by (simp add: getProp_def)

lemma getProp_Nil: "getProp [] k = JUndefined"
  by (simp add: getProp_def)

lemma hasProp_Cons: "hasProp ((k', v) # ps) k = (k = k' \<or> hasProp ps k)"
  by (auto simp: hasProp_def)

lemma hasProp_Nil: "hasProp [] k = False"
  by (simp add: hasProp_def)

lemma getProp_head: "getProp ((k, v) # ps) k = v"
  by (simp add: getProp_def)

lemma getProp_absent: "\<not> hasProp ps k \<Longrightarrow> getProp ps k = JUndefined"
  by (induction ps) (auto simp: getProp_Cons hasProp_Cons getProp_Nil)

lemma getProp_replace:
  "getProp (map (\<lambda>(k', v'). if k' = k then (k', v) else (k', v')) ps) k'
     = (if k' = k \<and> hasProp ps k then v else getProp ps k')"
  by (induction ps) (auto simp: getProp_Cons hasProp_Cons hasProp_Nil getProp_Nil getProp_absent)

lemma getProp_append_new:
  "getProp (ps @ [(k, v)]) k' = (if hasProp ps k' then getProp ps k' else if k' = k then v else JUndefined)"
  by (induction ps) (auto simp: getProp_Cons hasProp_Cons hasProp_Nil getProp_Nil)

lemma getProp_setProp: "getProp (setProp ps k v) k' = (if k' = k then v else getProp ps k')"
  by (auto simp: setProp_def getProp_replace getProp_append_new getProp_absent)

lemma hasProp_replace:
  "hasProp (map (\<lambda>(k', v'). if k' = k then (k', v) else (k', v')) ps) k' = hasProp ps k'"
proof -
  have "map fst (map (\<lambda>(k', v'). if k' = k then (k', v) else (k', v')) ps) = map fst ps"
    by (induction ps) auto
  then show ?thesis by (simp add: hasProp_def)
qed

lemma hasProp_append: "hasProp (ps @ qs) k = (hasProp ps k \<or> hasProp qs k)"
  by (auto simp: hasProp_def)

lemma hasProp_setProp: "hasProp (setProp ps k v) k' = (k' = k \<or> hasProp ps k')"
  by (auto simp: setProp_def hasProp_replace hasProp_append hasProp_Cons hasProp_Nil)

lemma hasProp_spread: "hasProp (spread ps qs) k = (hasProp ps k \<or> hasProp qs k)"
  by (induction ps qs rule: spread.induct) (auto simp: hasProp_setProp hasProp_Cons hasProp_Nil)

lemma getProp_spread_absent: "\<not> hasProp qs k \<Longrightarrow> getProp (spread ps qs) k = getProp ps k"
  by (induction ps qs rule: spread.induct) (auto simp: getProp_setProp hasProp_Cons)

lemma getProp_spread_present:
  "distinct (map fst qs) \<Longrightarrow> hasProp qs k \<Longrightarrow> getProp (spread ps qs) k = getProp qs k"
proof (induction ps qs rule: spread.induct)
  case (1 ps)
  then show ?case by (simp add: hasProp_Nil)
next
  case (2 ps k' v qs)
  show ?case
  proof (cases "k = k'")
    case True
    with 2 have "\<not> hasProp qs k" by (simp add: hasProp_def)
    then have "getProp (spread (setProp ps k' v) qs) k = getProp (setProp ps k' v) k"
      by (rule getProp_spread_absent)
    with True show ?thesis by (simp add: getProp_setProp getProp_Cons)
  next
    case False
    with 2 show ?thesis by (simp add: hasProp_Cons getProp_Cons)
  qed
qed

lemma getProp_spread:
  "distinct (map fst qs) \<Longrightarrow>
   getProp (spread ps qs) k = (if hasProp qs k then getProp qs k else getProp ps k)"
  by (simp add: getProp_spread_present getProp_spread_absent)

subsection \<open>Validation\<close>

lemma finish_Inr: "finish is v = Inr w \<longleftrightarrow> is = [] \<and> w = v"
  by (auto simp: finish_def)

lemma finish_Inl: "finish is v = Inl e \<longleftrightarrow> is \<noteq> [] \<and> e = is"
  by (auto simp: finish_def)

lemma zparse_defined:
  "zparse rt s v = Inr w \<Longrightarrow> (w = JUndefined \<longleftrightarrow> v = JUndefined) \<and> (w = JNull \<longleftrightarrow> v = JNull)"
  by (induction s arbitrary: v w)
     (auto simp: finish_Inr split: jsval.splits if_splits prod.splits)


lemma zparse_issues: "zparse rt s v = Inl e \<Longrightarrow> e \<noteq> []"
  by (induction s arbitrary: v e)
     (auto simp: finish_Inl split: jsval.splits if_splits prod.splits)

lemma atPath_Nil: "atPath p e = [] \<longleftrightarrow> e = []"
  by (simp add: atPath_def)

lemma zparse_zuuid: "zparse rt zuuid v = Inr w \<longleftrightarrow> (\<exists>s. v = JStr s \<and> uuidRegex rt s \<and> w = v)"
  by (auto simp: finish_Inr split: jsval.splits)

lemma zparse_zstring: "zparse rt zstring v = Inr w \<longleftrightarrow> (\<exists>s. v = JStr s \<and> w = v)"
  by (auto simp: finish_Inr split: jsval.splits)

lemma zparse_shape_keys:
  "hasProp (snd (zparse_shape rt shape ps)) k \<Longrightarrow> k \<in> set (map fst shape)"
proof (induction shape)
  case Nil
  then show ?case by (simp add: hasProp_Nil)
next
  case (Cons a shape)
  obtain k' s' where a: "a = (k', s')" by (cases a)
  obtain iss out' where r: "zparse_shape rt shape ps = (iss, out')"
    by (cases "zparse_shape rt shape ps")
  from Cons.prems a r have "k = k' \<or> hasProp out' k"
    by (auto simp: hasProp_Cons split: sum.splits if_splits)
  with Cons.IH r a show ?case by auto
qed

lemma zparse_shape_field:
  "distinct (map fst shape) \<Longrightarrow> zparse_shape rt shape ps = ([], out) \<Longrightarrow> (k, s) \<in> set shape \<Longrightarrow>
   zparse rt s (getProp ps k) = Inr (getProp out k)"
proof (induction shape arbitrary: out)
  case Nil
  then show ?case by simp
next
  case (Cons a shape)
  obtain k' s' where a: "a = (k', s')" by (cases a)
  obtain iss out' where r: "zparse_shape rt shape ps = (iss, out')"
    by (cases "zparse_shape rt shape ps")
  from Cons.prems(2) a r obtain w where w: "zparse rt s' (getProp ps k') = Inr w" and iss: "iss = []"
    and out: "out = (if w \<noteq> JUndefined \<or> hasProp ps k' then (k', w) # out' else out')"
    by (auto simp: atPath_Nil split: sum.splits dest: zparse_issues)
  have keys: "hasProp out' k' \<Longrightarrow> k' \<in> set (map fst shape)"
    using zparse_shape_keys [of rt shape ps k'] r by simp
  from Cons.prems(1) a have k'_fresh: "k' \<notin> set (map fst shape)" and d: "distinct (map fst shape)"
    by auto
  show ?case
  proof (cases "(k, s) = (k', s')")
    case True
    have "\<not> hasProp out' k'" using keys k'_fresh by blast
    then have "getProp out' k' = JUndefined" by (rule getProp_absent)
    with out have "getProp out k' = w" by (auto simp: getProp_Cons)
    with True w show ?thesis by simp
  next
    case False
    with Cons.prems(3) a have mem: "(k, s) \<in> set shape" by auto
    then have "k \<noteq> k'" using k'_fresh by force
    with out have "getProp out k = getProp out' k" by (auto simp: getProp_Cons)
    moreover from Cons.IH [OF d _ mem] r iss have "zparse rt s (getProp ps k) = Inr (getProp out' k)"
      by simp
    ultimately show ?thesis by simp
  qed
qed

lemma zparse_object_field:
  "distinct (map fst shape) \<Longrightarrow> zparse rt (ZObject shape) (JObj ps) = Inr vp \<Longrightarrow> (k, s) \<in> set shape \<Longrightarrow>
   zparse rt s (getProp ps k) = Inr (member vp k)"
  by (auto simp: finish_Inr member_def split: prod.splits dest: zparse_shape_field)

lemma zparse_object_head_fails:
  "zparse rt s (getProp ps k) = Inl e \<Longrightarrow>
   \<exists>is. zparse rt (ZObject ((k, s) # shape)) (JObj ps) = Inl is"
  by (auto simp: finish_def atPath_Nil split: prod.splits dest: zparse_issues)

subsection \<open>Outcomes\<close>

lemma parse_Inl: "parse rt s v = (Inl err :: 'e error + jsval) \<Longrightarrow> rejected (throw err :: 'e outcome)"
  by (auto simp: parse_def rejected_def throw_def split: sum.splits)

lemma parse_Inr: "(parse rt s v :: 'e error + jsval) = Inr w \<longleftrightarrow> zparse rt s v = Inr w"
  by (auto simp: parse_def split: sum.splits)

lemma bodyKeys_await:
  "bodyKeys (await_request client (Request m p (JObj ps)) cont) = [map fst ps]"
  by (simp add: bodyKeys_def await_request_def)

lemma zparse_shape_out_keys:
  "zparse_shape rt shape ps = ([], out) \<Longrightarrow> map fst out = filter (hasProp ps) (map fst shape)"
proof (induction shape arbitrary: out)
  case Nil
  then show ?case by simp
next
  case (Cons a shape)
  obtain k s where a: "a = (k, s)" by (cases a)
  obtain iss out' where r: "zparse_shape rt shape ps = (iss, out')"
    by (cases "zparse_shape rt shape ps")
  from Cons.prems a r obtain w where w: "zparse rt s (getProp ps k) = Inr w" and iss: "iss = []"
    and out: "out = (if w \<noteq> JUndefined \<or> hasProp ps k then (k, w) # out' else out')"
    by (auto simp: atPath_Nil split: sum.splits dest: zparse_issues)
  from w have "w \<noteq> JUndefined \<Longrightarrow> hasProp ps k"
    using zparse_defined [OF w] getProp_absent [of ps k] by blast
  with out have "map fst out = (if hasProp ps k then k # map fst out' else map fst out')"
    by auto
  with Cons.IH [of out'] r iss a show ?case by simp
qed

lemma zparse_object_keys:
  assumes "zparse rt (ZObject shape) (JObj ps) = Inr vp"
  obtains out where "vp = JObj out" and "map fst out = filter (hasProp ps) (map fst shape)"
  using assms by (auto simp: finish_Inr split: prod.splits dest: zparse_shape_out_keys)

lemma required_present:
  assumes "zparse rt s (getProp ps k) = Inr w" and "\<And>w. zparse rt s JUndefined \<noteq> Inr w"
  shows "hasProp ps k"
  using assms getProp_absent [of ps k] by metis

subsection \<open>JSON bodies and validated fields\<close>

lemma member_JObj: "member (JObj ps) k = getProp ps k"
  by (simp add: member_def)

lemma getProp_spread_other:
  "distinct (map fst ps) \<Longrightarrow> \<not> hasProp base k \<Longrightarrow> getProp (spread base ps) k = getProp ps k"
  by (simp add: getProp_spread getProp_absent)

lemma sendsOptional_throw: "sendsOptional ps f (throw err)"
  by (simp add: sendsOptional_def throw_def)

lemma sendsOptional_await:
  "sendsOptional ps f (await_request client (Request m p b) cont) \<longleftrightarrow>
     (f \<in> set (jsonKeys b)) = (getProp ps f \<noteq> JUndefined)
     \<and> (getProp ps f = JNull \<longrightarrow> member (jsonForm b) f = JNull)"
  by (simp add: sendsOptional_def await_request_def)

text \<open>
  A body built field by field from the validated object: the field is a key of the
  JSON form when its value is defined.
\<close>

lemma jsonKeys_Cons:
  "jsonKeys (JObj ((k, v) # ps)) = (if v = JUndefined then jsonKeys (JObj ps) else k # jsonKeys (JObj ps))"
  by (simp add: jsonKeys_def)

lemma jsonKeys_Nil: "jsonKeys (JObj []) = []"
  by (simp add: jsonKeys_def)

lemma jsonForm_member_Cons:
  "member (jsonForm (JObj ((k, v) # ps))) f =
     (if v \<noteq> JUndefined \<and> f = k then jsonForm v else member (jsonForm (JObj ps)) f)"
  by (simp add: member_def getProp_def)

lemma jsonForm_member_Nil: "member (jsonForm (JObj [])) f = JUndefined"
  by (simp add: member_def getProp_def)

lemma validated_field:
  assumes d: "distinct (map fst shape)" and ds: "distinct (map fst ps)"
    and p: "zparse rt (ZObject shape) (JObj (spread base ps)) = Inr vp"
    and m: "(f, s) \<in> set shape" and nb: "\<not> hasProp base f"
  shows "(member vp f = JUndefined) = (getProp ps f = JUndefined)"
    and "getProp ps f = JNull \<Longrightarrow> member vp f = JNull"
proof -
  from zparse_object_field [OF d p m] getProp_spread_other [OF ds nb]
  have "zparse rt s (getProp ps f) = Inr (member vp f)" by simp
  from zparse_defined [OF this]
  show "(member vp f = JUndefined) = (getProp ps f = JUndefined)"
    and "getProp ps f = JNull \<Longrightarrow> member vp f = JNull" by simp_all
qed

lemma jsonKeys_shape:
  "zparse_shape rt shape ps = ([], out) \<Longrightarrow>
   jsonKeys (JObj out) = filter (\<lambda>k. getProp ps k \<noteq> JUndefined) (map fst shape)"
proof (induction shape arbitrary: out)
  case Nil
  then show ?case by (simp add: jsonKeys_Nil)
next
  case (Cons a shape)
  obtain k s where a: "a = (k, s)" by (cases a)
  obtain iss out' where r: "zparse_shape rt shape ps = (iss, out')"
    by (cases "zparse_shape rt shape ps")
  from Cons.prems a r obtain w where w: "zparse rt s (getProp ps k) = Inr w" and iss: "iss = []"
    and out: "out = (if w \<noteq> JUndefined \<or> hasProp ps k then (k, w) # out' else out')"
    by (auto simp: atPath_Nil split: sum.splits dest: zparse_issues)
  from zparse_defined [OF w] have u: "(w = JUndefined) = (getProp ps k = JUndefined)" by simp
  from out u have "jsonKeys (JObj out)
      = (if getProp ps k \<noteq> JUndefined then k # jsonKeys (JObj out') else jsonKeys (JObj out'))"
    by (auto simp: jsonKeys_Cons)
  with Cons.IH [of out'] r iss a show ?case by simp
qed

lemma jsonKeys_validated:
  "zparse rt (ZObject shape) (JObj ps) = Inr vp \<Longrightarrow>
   jsonKeys vp = filter (\<lambda>k. getProp ps k \<noteq> JUndefined) (map fst shape)"
  by (auto simp: finish_Inr split: prod.splits dest: jsonKeys_shape)

subsection \<open>Scalars and query strings\<close>

lemma zparse_string_id: "zparse rt (ZString cs) v = Inr w \<Longrightarrow> w = v \<and> (\<exists>s. v = JStr s)"
  by (auto simp: finish_Inr split: jsval.splits)

lemma zparse_number_id: "zparse rt (ZNumber cs) v = Inr w \<Longrightarrow> w = v \<and> (\<exists>n. v = JNum n)"
  by (auto simp: finish_Inr split: jsval.splits)

lemma zparse_enum_id: "zparse rt (ZEnum vs) v = Inr w \<Longrightarrow> w = v \<and> (\<exists>s. v = JStr s)"
  by (auto split: jsval.splits if_splits)

lemma zparse_boolean_id: "zparse rt ZBoolean v = Inr w \<Longrightarrow> w = v"
  by (auto split: jsval.splits)

lemma zparse_optnull_string_id: "zparse rt (optnull (ZString cs)) v = Inr w \<Longrightarrow> w = v"
  by (auto simp: finish_Inr split: jsval.splits if_splits)

lemma zparse_optnull_number_id: "zparse rt (optnull (ZNumber cs)) v = Inr w \<Longrightarrow> w = v"
  by (auto simp: finish_Inr split: jsval.splits if_splits)

lemma zparse_optnull_enum_id: "zparse rt (optnull (ZEnum vs)) v = Inr w \<Longrightarrow> w = v"
  by (auto split: jsval.splits if_splits)

lemma zparse_optnull_boolean_id: "zparse rt (optnull ZBoolean) v = Inr w \<Longrightarrow> w = v"
  by (auto split: jsval.splits if_splits)

lemma appendIfPresent_map:
  "appendIfPresent rt k v = map (\<lambda>k. (k, toString rt v)) (filter (\<lambda>k. present v) [k])"
  by (simp add: appendIfPresent_def)

subsection \<open>List operations\<close>







lemma validated_id:
  assumes "zparse rt (ZObject ((k, zuuid) # shape)) (JObj cand) = Inr vp"
  obtains i where "member vp k = JStr i" and "getProp cand k = JStr i" and "uuidRegex rt i"
proof -
  obtain iss out' where r: "zparse_shape rt shape cand = (iss, out')"
    by (cases "zparse_shape rt shape cand")
  from assms r obtain w where w: "zparse rt zuuid (getProp cand k) = Inr w"
    and vp: "vp = JObj (if w \<noteq> JUndefined \<or> hasProp cand k then (k, w) # out' else out')"
    by (auto simp: finish_Inr atPath_Nil simp del: zparse.simps(1) split: sum.splits
          dest: zparse_issues)
  from w obtain i where i: "getProp cand k = JStr i" "uuidRegex rt i" "w = JStr i"
    by (auto simp: zparse_zuuid simp del: zparse.simps(1))
  with vp have "member vp k = JStr i" by (simp add: member_def getProp_head)
  with i that show thesis by blast
qed

subsection \<open>Deep equality\<close>

lemma deepEqual_JObj:
  "deepEqual (JObj a) (JObj b) = (length a = length b \<and> deepEqualProps a b)"
  by simp

lemma deepEqual_JArr: "deepEqual (JArr xs) (JArr ys) = deepEqualList xs ys"
  by simp

lemma deepEqual_scalar:
  "deepEqual JUndefined JUndefined" "deepEqual JNull JNull" "deepEqual (JBool b) (JBool b)"
  "deepEqual (JNum n) (JNum n)" "deepEqual (JStr s) (JStr s)"
  by simp_all

lemma filter_keys_length:
  assumes "distinct xs" and "distinct ys" and "set ys \<subseteq> set xs"
  shows "length (filter (\<lambda>k. k \<in> set ys) xs) = length ys"
proof -
  have "set (filter (\<lambda>k. k \<in> set ys) xs) = set ys" using assms(3) by auto
  moreover have "distinct (filter (\<lambda>k. k \<in> set ys) xs)" using assms(1) by simp
  ultimately have "length (filter (\<lambda>k. k \<in> set ys) xs) = card (set ys)"
    by (metis distinct_card)
  with assms(2) show ?thesis by (simp add: distinct_card)
qed

lemma getProp_distinct: "distinct (map fst ps) \<Longrightarrow> (k, x) \<in> set ps \<Longrightarrow> getProp ps k = x"
  by (simp add: getProp_def)

lemma hasProp_mem: "(k, x) \<in> set ps \<Longrightarrow> hasProp ps k"
  by (force simp: hasProp_def)

subsection \<open>Parsing a conforming value\<close>

lemma items_conform:
  assumes IH: "\<And>v. conformsTo rt s v \<Longrightarrow> \<exists>w. zparse rt s v = Inr w \<and> deepEqual w v"
  shows "list_all (conformsTo rt s) xs \<Longrightarrow>
         \<exists>ys. zparse_items rt s i xs = ([], ys) \<and> deepEqualList ys xs"
proof (induction xs arbitrary: i)
  case Nil
  then show ?case by simp
next
  case (Cons x xs)
  from Cons.prems have "conformsTo rt s x" and "list_all (conformsTo rt s) xs" by simp_all
  from IH [OF this(1)] obtain w where w: "zparse rt s x = Inr w" "deepEqual w x" by blast
  from Cons.IH [OF \<open>list_all (conformsTo rt s) xs\<close>, of "Suc i"]
  obtain ys where ys: "zparse_items rt s (Suc i) xs = ([], ys)" "deepEqualList ys xs" by blast
  from w ys show ?case by (simp del: deepEqual.simps)
qed

lemma entries_conform:
  assumes IH: "\<And>v. conformsTo rt s v \<Longrightarrow> \<exists>w. zparse rt s v = Inr w \<and> deepEqual w v"
  shows "list_all (\<lambda>p. conformsTo rt s (snd p) \<and> hasProp ps (fst p) \<and> getProp ps (fst p) = snd p) qs \<Longrightarrow>
         \<exists>out. zparse_entries rt s qs = ([], out) \<and> length out = length qs \<and> deepEqualProps out ps"
proof (induction qs)
  case Nil
  then show ?case by simp
next
  case (Cons q qs)
  obtain k x where q: "q = (k, x)" by (cases q)
  from Cons.prems q have c: "conformsTo rt s x" and h: "hasProp ps k" and g: "getProp ps k = x"
    and rest: "list_all (\<lambda>p. conformsTo rt s (snd p) \<and> hasProp ps (fst p) \<and> getProp ps (fst p) = snd p) qs"
    by simp_all
  from IH [OF c] obtain w where w: "zparse rt s x = Inr w" "deepEqual w x" by blast
  from Cons.IH [OF rest] obtain out where out: "zparse_entries rt s qs = ([], out)"
    "length out = length qs" "deepEqualProps out ps" by blast
  from w out h g q show ?case by (simp del: deepEqual.simps)
qed

lemma shape_conform:
  assumes IH: "\<And>s v. s \<in> snd ` set shape \<Longrightarrow> conformsTo rt s v \<Longrightarrow>
                 \<exists>w. zparse rt s v = Inr w \<and> deepEqual w v"
    and c: "conformsShape rt shape ps"
  shows "\<exists>out. zparse_shape rt shape ps = ([], out) \<and> deepEqualProps out ps"
  using assms
proof (induction shape)
  case Nil
  then show ?case by simp
next
  case (Cons a shape)
  obtain k s where a: "a = (k, s)" by (cases a)
  from Cons.prems(2) a have ck: "conformsTo rt s (getProp ps k)" and cs: "conformsShape rt shape ps"
    by simp_all
  from Cons.prems(1) [of s, OF _ ck] a
  obtain w where w: "zparse rt s (getProp ps k) = Inr w" "deepEqual w (getProp ps k)" by force
  have "\<exists>out. zparse_shape rt shape ps = ([], out) \<and> deepEqualProps out ps"
    by (rule Cons.IH [OF _ cs]) (rule Cons.prems(1), simp)
  then obtain out where out: "zparse_shape rt shape ps = ([], out)" "deepEqualProps out ps"
    by blast
  have "w \<noteq> JUndefined \<Longrightarrow> hasProp ps k"
    using zparse_defined [OF w(1)] getProp_absent [of ps k] by blast
  with w out a show ?case by (auto simp del: deepEqual.simps)
qed

lemma parse_conforming:
  "distinctKeys s \<Longrightarrow> conformsTo rt s v \<Longrightarrow> \<exists>w. zparse rt s v = Inr w \<and> deepEqual w v"
proof (induction s arbitrary: v)
  case (ZString cs)
  then obtain s where v: "v = JStr s" and "list_all (\<lambda>c. strIssues rt s c = []) cs"
    by (auto split: jsval.splits)
  then have "concat (map (strIssues rt s) cs) = []"
    by (induction cs) auto
  with v show ?case by (simp add: finish_def)
next
  case (ZNumber cs)
  then obtain n where v: "v = JNum n" and "list_all (\<lambda>c. numIssues n c = []) cs"
    by (auto split: jsval.splits)
  then have "concat (map (numIssues n) cs) = []"
    by (induction cs) auto
  with v show ?case by (simp add: finish_def)
next
  case ZBoolean
  then show ?case by (auto split: jsval.splits)
next
  case (ZEnum vs)
  then show ?case by (auto split: jsval.splits)
next
  case (ZArray s)
  from ZArray.prems obtain xs where v: "v = JArr xs" and c: "list_all (conformsTo rt s) xs"
    and d: "distinctKeys s"
    by (auto split: jsval.splits)
  have "\<exists>ys. zparse_items rt s 0 xs = ([], ys) \<and> deepEqualList ys xs"
    by (rule items_conform [OF ZArray.IH [OF d] c])
  with v show ?case by (auto simp: finish_def)
next
  case (ZRecord s)
  from ZRecord.prems obtain ps where v: "v = JObj ps" and dp: "distinct (map fst ps)"
    and c: "list_all (\<lambda>p. conformsTo rt s (snd p)) ps" and d: "distinctKeys s"
    by (auto split: jsval.splits)
  from c dp have "list_all (\<lambda>p. conformsTo rt s (snd p) \<and> hasProp ps (fst p)
        \<and> getProp ps (fst p) = snd p) ps"
    by (auto simp: list_all_iff hasProp_mem getProp_distinct)
  from entries_conform [OF ZRecord.IH [OF d] this]
  obtain out where "zparse_entries rt s ps = ([], out)" "length out = length ps"
    "deepEqualProps out ps" by blast
  with v show ?case by (simp add: finish_def)
next
  case (ZObject shape)
  from ZObject.prems obtain ps where v: "v = JObj ps" and dp: "distinct (map fst ps)"
    and sub: "set (map fst ps) \<subseteq> set (map fst shape)" and c: "conformsShape rt shape ps"
    and ds: "distinct (map fst shape)" and dk: "distinctKeysShape shape"
    by (auto simp: list_all_iff split: jsval.splits)
  have dks: "distinctKeys s" if "(k, s) \<in> set shape" for k s
    using dk that by (induction shape) auto
  have "\<exists>w. zparse rt s v = Inr w \<and> deepEqual w v"
    if "s \<in> snd ` set shape" "conformsTo rt s v" for s v
  proof -
    from that(1) obtain k where m: "(k, s) \<in> set shape" by auto
    from ZObject.IH [of "(k, s)" s v] m that(2) dks [OF m] show ?thesis by simp
  qed
  from shape_conform [OF this c]
  obtain out where out: "zparse_shape rt shape ps = ([], out)" "deepEqualProps out ps"
    by blast
  from zparse_shape_out_keys [OF out(1)]
  have "length out = length (filter (hasProp ps) (map fst shape))"
    by (metis length_map)
  also have "\<dots> = length (map fst ps)"
    unfolding hasProp_def by (rule filter_keys_length [OF ds dp sub])
  finally have "length out = length ps" by simp
  with v out show ?case by (simp add: finish_def)
next
  case (ZOptional s)
  then show ?case by (cases "v = JUndefined") auto
next
  case (ZNullable s)
  then show ?case by (cases "v = JNull") auto
qed


subsection \<open>The text of a query string\<close>

lemma joinWith_Cons: "joinWith sep (x # xs) = x @ concat (map (\<lambda>z. sep @ z) xs)"
  by (induction xs arbitrary: x) auto

lemma URLSearchParams_toString_Cons:
  "URLSearchParams_toString ((k, v) # qp)
     = formEncode k @ ''='' @ formEncode v
       @ concat (map (\<lambda>(k, v). ''&'' @ formEncode k @ ''='' @ formEncode v) qp)"
  by (simp add: URLSearchParams_toString_def joinWith_Cons o_def case_prod_unfold)



lemma zparse_enum_mem:
  "zparse rt (ZEnum vs) v = Inr w \<Longrightarrow> \<exists>s. v = JStr s \<and> w = v \<and> s \<in> set vs"
  by (auto split: jsval.splits if_splits)

section \<open>C1: a malformed entity ID is rejected before any request\<close>

lemma getProp_spread_cases:
  "getProp (spread base ps) k = getProp base k \<or> (k, getProp (spread base ps) k) \<in> set ps"
proof (induction base ps rule: spread.induct)
  case (1 ps)
  then show ?case by simp
next
  case (2 ps k' v qs)
  then show ?case by (auto simp: getProp_setProp split: if_splits)
qed

lemma zuuid_invalid: "\<not> validId rt x \<Longrightarrow> \<exists>e. zparse rt zuuid x = Inl e"
  by (cases x) (auto simp: validId_def finish_def)

lemma literal_id_invalid:
  "\<not> uuidRegex rt i \<Longrightarrow> \<not> validId rt (getProp ((k, JStr i) # base) k)"
  by (simp add: getProp_head validId_def)

lemma candidate_id_invalid:
  assumes bad: "\<not> uuidRegex rt i" and none: "\<not> replacesId rt ps k"
  shows "\<not> validId rt (getProp (spread ((k, JStr i) # base) ps) k)"
proof -
  let ?x = "getProp (spread ((k, JStr i) # base) ps) k"
  from getProp_spread_cases [of "(k, JStr i) # base" ps k]
  consider "?x = JStr i" | "(k, ?x) \<in> set ps"
    by (auto simp: getProp_head)
  then show ?thesis
  proof cases
    case 1
    with bad show ?thesis by (simp add: validId_def)
  next
    case 2
    with none show ?thesis by (force simp: replacesId_def list_ex_iff)
  qed
qed

lemma id_rejected:
  assumes "\<not> validId rt (getProp cand k)"
  shows "\<exists>is. zparse rt (ZObject ((k, zuuid) # shape)) (JObj cand) = Inl is"
proof -
  from zuuid_invalid [OF assms] obtain e where "zparse rt zuuid (getProp cand k) = Inl e"
    by blast
  then show ?thesis by (rule zparse_object_head_fails)
qed

lemma rejected_throw: "rejected (throw (ZodError iss))"
  by (simp add: rejected_def throw_def)

text \<open>
  C1, as amended. Every operation whose input schema declares the entity ID (all of
  Wallets; create, list, get and delete of ContractEvents) throws a validation error
  and issues no request when the supplied ID is not a valid UUID string, unless the
  params object itself carries a valid UUID string under the key of that operation's
  ID, which the spread \<open>{id, ...params}\<close> would put in the place of the supplied one.
  \<open>ContractEvents.update\<close> and \<open>ContractEvents.searchLogs\<close> are not among them:
  their schemas declare no ID.
\<close>

theorem malformed_id_rejected:
  assumes bad: "\<not> uuidRegex rt i"
  shows "rejected (Wallets_list rt client i None)
       \<and> (\<not> replacesId rt ps ''businessId'' \<longrightarrow> rejected (Wallets_list rt client i (Some ps)))
       \<and> (\<not> replacesId rt ps ''businessId'' \<longrightarrow> rejected (Wallets_create rt client i ps))
       \<and> rejected (Wallets_get rt client i includeBalances)
       \<and> (\<not> replacesId rt ps ''walletId'' \<longrightarrow> rejected (Wallets_update rt client i ps))
       \<and> rejected (Wallets_delete rt client i)
       \<and> (\<not> replacesId rt ps ''walletId'' \<longrightarrow> rejected (Wallets_transfer rt client i ps))
       \<and> rejected (Wallets_listDelegations rt client i None)
       \<and> (\<not> replacesId rt ps ''walletId'' \<longrightarrow> rejected (Wallets_listDelegations rt client i (Some ps)))
       \<and> (\<not> replacesId rt ps ''walletId'' \<longrightarrow> rejected (Wallets_createDelegation rt client i ps))
       \<and> rejected (Wallets_deleteDelegation rt client i)
       \<and> (\<not> replacesId rt ps ''walletId'' \<longrightarrow> rejected (Wallets_getSignature rt client i ty ps))
       \<and> (\<not> replacesId rt ps ''businessId'' \<longrightarrow> rejected (ContractEvents_create rt client i ps))
       \<and> rejected (ContractEvents_list rt client i None)
       \<and> (\<not> replacesId rt ps ''businessId'' \<longrightarrow> rejected (ContractEvents_list rt client i (Some ps)))
       \<and> rejected (ContractEvents_get rt client i)
       \<and> rejected (ContractEvents_delete rt client i)"
proof -
  have 1: "rejected (Wallets_list rt client i None)"
  proof -
    from id_rejected [OF literal_id_invalid [OF bad]] obtain iss where
      "zparse rt listWalletsSchema (JObj [(''businessId'', JStr i)]) = Inl iss"
      unfolding listWalletsSchema_def by blast
    then show ?thesis
      by (simp add: Wallets_list_def parse_def spreadOpt_def rejected_throw)
  qed
  have 2: "(\<not> replacesId rt ps ''businessId'' \<longrightarrow> rejected (Wallets_list rt client i (Some ps)))"
  proof
    assume none: "\<not> replacesId rt ps ''businessId''"
    from id_rejected [OF candidate_id_invalid [OF bad none]] obtain iss where
      "zparse rt listWalletsSchema (JObj (spread [(''businessId'', JStr i)] ps)) = Inl iss"
      unfolding listWalletsSchema_def by blast
    then show "rejected (Wallets_list rt client i (Some ps))"
      by (simp add: Wallets_list_def parse_def spreadOpt_def rejected_throw)
  qed
  have 3: "(\<not> replacesId rt ps ''businessId'' \<longrightarrow> rejected (Wallets_create rt client i ps))"
  proof
    assume none: "\<not> replacesId rt ps ''businessId''"
    from id_rejected [OF candidate_id_invalid [OF bad none]] obtain iss where
      "zparse rt createWalletSchema (JObj (spread [(''businessId'', JStr i)] ps)) = Inl iss"
      unfolding createWalletSchema_def by blast
    then show "rejected (Wallets_create rt client i ps)"
      by (simp add: Wallets_create_def parse_def spreadOpt_def rejected_throw)
  qed
  have 4: "rejected (Wallets_get rt client i includeBalances)"
  proof -
    from id_rejected [OF literal_id_invalid [OF bad]] obtain iss where
      "zparse rt getWalletSchema (JObj [(''walletId'', JStr i), (''includeBalances'', includeBalances)]) = Inl iss"
      unfolding getWalletSchema_def by blast
    then show ?thesis
      by (simp add: Wallets_get_def parse_def spreadOpt_def rejected_throw)
  qed
  have 5: "(\<not> replacesId rt ps ''walletId'' \<longrightarrow> rejected (Wallets_update rt client i ps))"
  proof
    assume none: "\<not> replacesId rt ps ''walletId''"
    from id_rejected [OF candidate_id_invalid [OF bad none]] obtain iss where
      "zparse rt updateWalletSchema (JObj (spread [(''walletId'', JStr i)] ps)) = Inl iss"
      unfolding updateWalletSchema_def by blast
    then show "rejected (Wallets_update rt client i ps)"
      by (simp add: Wallets_update_def parse_def spreadOpt_def rejected_throw)
  qed
  have 6: "rejected (Wallets_delete rt client i)"
  proof -
    from id_rejected [OF literal_id_invalid [OF bad]] obtain iss where
      "zparse rt deleteWalletSchema (JObj [(''walletId'', JStr i)]) = Inl iss"
      unfolding deleteWalletSchema_def by blast
    then show ?thesis
      by (simp add: Wallets_delete_def parse_def spreadOpt_def rejected_throw)
  qed
  have 7: "(\<not> replacesId rt ps ''walletId'' \<longrightarrow> rejected (Wallets_transfer rt client i ps))"
  proof
    assume none: "\<not> replacesId rt ps ''walletId''"
    from id_rejected [OF candidate_id_invalid [OF bad none]] obtain iss where
      "zparse rt transferWalletSchema (JObj (spread [(''walletId'', JStr i)] ps)) = Inl iss"
      unfolding transferWalletSchema_def by blast
    then show "rejected (Wallets_transfer rt client i ps)"
      by (simp add: Wallets_transfer_def parse_def spreadOpt_def rejected_throw)
  qed
  have 8: "rejected (Wallets_listDelegations rt client i None)"
  proof -
    from id_rejected [OF literal_id_invalid [OF bad]] obtain iss where
      "zparse rt listDelegationsSchema (JObj [(''walletId'', JStr i)]) = Inl iss"
      unfolding listDelegationsSchema_def by blast
    then show ?thesis
      by (simp add: Wallets_listDelegations_def parse_def spreadOpt_def rejected_throw)
  qed
  have 9: "(\<not> replacesId rt ps ''walletId'' \<longrightarrow> rejected (Wallets_listDelegations rt client i (Some ps)))"
  proof
    assume none: "\<not> replacesId rt ps ''walletId''"
    from id_rejected [OF candidate_id_invalid [OF bad none]] obtain iss where
      "zparse rt listDelegationsSchema (JObj (spread [(''walletId'', JStr i)] ps)) = Inl iss"
      unfolding listDelegationsSchema_def by blast
    then show "rejected (Wallets_listDelegations rt client i (Some ps))"
      by (simp add: Wallets_listDelegations_def parse_def spreadOpt_def rejected_throw)
  qed
  have 10: "(\<not> replacesId rt ps ''walletId'' \<longrightarrow> rejected (Wallets_createDelegation rt client i ps))"
  proof
    assume none: "\<not> replacesId rt ps ''walletId''"
    from id_rejected [OF candidate_id_invalid [OF bad none]] obtain iss where
      "zparse rt createDelegationSchema (JObj (spread [(''walletId'', JStr i)] ps)) = Inl iss"
      unfolding createDelegationSchema_def by blast
    then show "rejected (Wallets_createDelegation rt client i ps)"
      by (simp add: Wallets_createDelegation_def parse_def spreadOpt_def rejected_throw)
  qed
  have 11: "rejected (Wallets_deleteDelegation rt client i)"
  proof -
    from id_rejected [OF literal_id_invalid [OF bad]] obtain iss where
      "zparse rt deleteDelegationSchema (JObj [(''delegationId'', JStr i)]) = Inl iss"
      unfolding deleteDelegationSchema_def by blast
    then show ?thesis
      by (simp add: Wallets_deleteDelegation_def parse_def spreadOpt_def rejected_throw)
  qed
  have 12: "(\<not> replacesId rt ps ''walletId'' \<longrightarrow> rejected (Wallets_getSignature rt client i ty ps))"
  proof
    assume none: "\<not> replacesId rt ps ''walletId''"
    from id_rejected [OF candidate_id_invalid [OF bad none]] obtain iss where
      "zparse rt getSignatureSchema (JObj (spread [(''walletId'', JStr i), (''type'', JStr ty)] ps)) = Inl iss"
      unfolding getSignatureSchema_def by blast
    then show "rejected (Wallets_getSignature rt client i ty ps)"
      by (simp add: Wallets_getSignature_def parse_def spreadOpt_def rejected_throw)
  qed
  have 13: "(\<not> replacesId rt ps ''businessId'' \<longrightarrow> rejected (ContractEvents_create rt client i ps))"
  proof
    assume none: "\<not> replacesId rt ps ''businessId''"
    from id_rejected [OF candidate_id_invalid [OF bad none]] obtain iss where
      "zparse rt createContractEventSchema (JObj (spread [(''businessId'', JStr i)] ps)) = Inl iss"
      unfolding createContractEventSchema_def by blast
    then show "rejected (ContractEvents_create rt client i ps)"
      by (simp add: ContractEvents_create_def parse_def spreadOpt_def rejected_throw)
  qed
  have 14: "rejected (ContractEvents_list rt client i None)"
  proof -
    from id_rejected [OF literal_id_invalid [OF bad]] obtain iss where
      "zparse rt listContractEventsSchema (JObj [(''businessId'', JStr i)]) = Inl iss"
      unfolding listContractEventsSchema_def by blast
    then show ?thesis
      by (simp add: ContractEvents_list_def parse_def spreadOpt_def rejected_throw)
  qed
  have 15: "(\<not> replacesId rt ps ''businessId'' \<longrightarrow> rejected (ContractEvents_list rt client i (Some ps)))"
  proof
    assume none: "\<not> replacesId rt ps ''businessId''"
    from id_rejected [OF candidate_id_invalid [OF bad none]] obtain iss where
      "zparse rt listContractEventsSchema (JObj (spread [(''businessId'', JStr i)] ps)) = Inl iss"
      unfolding listContractEventsSchema_def by blast
    then show "rejected (ContractEvents_list rt client i (Some ps))"
      by (simp add: ContractEvents_list_def parse_def spreadOpt_def rejected_throw)
  qed
  have 16: "rejected (ContractEvents_get rt client i)"
  proof -
    from id_rejected [OF literal_id_invalid [OF bad]] obtain iss where
      "zparse rt getContractEventSchema (JObj [(''contractEventId'', JStr i)]) = Inl iss"
      unfolding getContractEventSchema_def by blast
    then show ?thesis
      by (simp add: ContractEvents_get_def parse_def spreadOpt_def rejected_throw)
  qed
  have 17: "rejected (ContractEvents_delete rt client i)"
  proof -
    from id_rejected [OF literal_id_invalid [OF bad]] obtain iss where
      "zparse rt deleteContractEventSchema (JObj [(''contractEventId'', JStr i)]) = Inl iss"
      unfolding deleteContractEventSchema_def by blast
    then show ?thesis
      by (simp add: ContractEvents_delete_def parse_def spreadOpt_def rejected_throw)
  qed
  show ?thesis
    by (intro conjI) (fact 1 2 3 4 5 6 7 8 9 10 11 12 13 14 15 16 17)+
qed

text \<open>
  At a malformed ID, with a params object that carries both ID keys with values that
  are no valid UUID strings: every covered operation is rejected.
\<close>

theorem malformed_id_rejected_witness:
  "\<not> uuidRegex node ''not-a-uuid''
   \<and> \<not> replacesId node [(''name'', JStr ''w''), (''businessId'', JStr ''also-bad''), (''walletId'', JNum 7)] ''businessId''
   \<and> \<not> replacesId node [(''name'', JStr ''w''), (''businessId'', JStr ''also-bad''), (''walletId'', JNum 7)] ''walletId''
   \<and> rejected (Wallets_list node (respond JNull) ''not-a-uuid'' None)
   \<and> rejected (Wallets_list node (respond JNull) ''not-a-uuid'' (Some [(''name'', JStr ''w''), (''businessId'', JStr ''also-bad''), (''walletId'', JNum 7)]))
   \<and> rejected (Wallets_create node (respond JNull) ''not-a-uuid'' [(''name'', JStr ''w''), (''businessId'', JStr ''also-bad''), (''walletId'', JNum 7)])
   \<and> rejected (Wallets_get node (respond JNull) ''not-a-uuid'' JUndefined)
   \<and> rejected (Wallets_update node (respond JNull) ''not-a-uuid'' [(''name'', JStr ''w''), (''businessId'', JStr ''also-bad''), (''walletId'', JNum 7)])
   \<and> rejected (Wallets_delete node (respond JNull) ''not-a-uuid'')
   \<and> rejected (Wallets_transfer node (respond JNull) ''not-a-uuid'' [(''name'', JStr ''w''), (''businessId'', JStr ''also-bad''), (''walletId'', JNum 7)])
   \<and> rejected (Wallets_listDelegations node (respond JNull) ''not-a-uuid'' None)
   \<and> rejected (Wallets_listDelegations node (respond JNull) ''not-a-uuid'' (Some [(''name'', JStr ''w''), (''businessId'', JStr ''also-bad''), (''walletId'', JNum 7)]))
   \<and> rejected (Wallets_createDelegation node (respond JNull) ''not-a-uuid'' [(''name'', JStr ''w''), (''businessId'', JStr ''also-bad''), (''walletId'', JNum 7)])
   \<and> rejected (Wallets_deleteDelegation node (respond JNull) ''not-a-uuid'')
   \<and> rejected (Wallets_getSignature node (respond JNull) ''not-a-uuid'' ''erc3009'' [(''name'', JStr ''w''), (''businessId'', JStr ''also-bad''), (''walletId'', JNum 7)])
   \<and> rejected (ContractEvents_create node (respond JNull) ''not-a-uuid'' [(''name'', JStr ''w''), (''businessId'', JStr ''also-bad''), (''walletId'', JNum 7)])
   \<and> rejected (ContractEvents_list node (respond JNull) ''not-a-uuid'' None)
   \<and> rejected (ContractEvents_list node (respond JNull) ''not-a-uuid'' (Some [(''name'', JStr ''w''), (''businessId'', JStr ''also-bad''), (''walletId'', JNum 7)]))
   \<and> rejected (ContractEvents_get node (respond JNull) ''not-a-uuid'')
   \<and> rejected (ContractEvents_delete node (respond JNull) ''not-a-uuid'')"
proof -
  have bad: "\<not> uuidRegex node ''not-a-uuid''"
    by (simp add: node_def uuidV3_def)
  have nb: "\<not> replacesId node [(''name'', JStr ''w''), (''businessId'', JStr ''also-bad''), (''walletId'', JNum 7)] ''businessId''"
    by (simp add: replacesId_def validId_def node_def uuidV3_def)
  have nw: "\<not> replacesId node [(''name'', JStr ''w''), (''businessId'', JStr ''also-bad''), (''walletId'', JNum 7)] ''walletId''"
    by (simp add: replacesId_def validId_def node_def uuidV3_def)
  from malformed_id_rejected [OF bad, where client = "respond JNull"
      and ps = "[(''name'', JStr ''w''), (''businessId'', JStr ''also-bad''), (''walletId'', JNum 7)]"
      and includeBalances = JUndefined and ty = "''erc3009''"]
    bad nb nw
  show ?thesis by blast
qed

text \<open>
  C1 as stated fails: \<open>ContractEvents.update\<close> validates the params object only and
  puts the ID into the path as it is, so a request goes out for a malformed ID.
\<close>

theorem unvalidated_event_id_counterexample:
  "\<not> uuidRegex node ''not-a-uuid''
   \<and> fst (ContractEvents_update node (respond JNull) ''not-a-uuid'' [])
       = [Request PUT ''/events/not-a-uuid'' (JObj [])]"
  by (simp add: ContractEvents_update_def updateContractEventSchema_def parse_def finish_def
        getProp_def hasProp_def await_request_def node_def uuidV3_def isHex_def)

text \<open>
  The proviso on the params object is needed: a \<open>businessId\<close> property of the
  params replaces a malformed first argument in the candidate object, and the request
  goes to the business of the params.
\<close>

lemma spread_replaces_id_example:
  "fst (Wallets_list node (respond JNull) ''not-a-uuid''
          (Some [(''businessId'', JStr ''123e4567-e89b-12d3-a456-426614174000'')]))
     = [Request GET
          ''/business/123e4567-e89b-12d3-a456-426614174000/wallets?businessId=123e4567-e89b-12d3-a456-426614174000''
          JUndefined]"
  by (simp add: Wallets_list_def listWalletsSchema_def parse_def finish_def spreadOpt_def
        getProp_def hasProp_def setProp_def member_def await_request_def node_def uuidV3_def
        isHex_def Let_def appendEntries_def appendIfPresent_def present_def
        URLSearchParams_toString_def withQuery_def formEncode_def encodeByte_def unreserved_def)

section \<open>C2: responses are validated against the output schema\<close>





section \<open>C3: path identifiers and the request body\<close>

lemma createContractEvent_keys:
  assumes "zparse rt createContractEventSchema (JObj ps) = Inr vp"
  obtains out where "vp = JObj out"
    and "map fst out = [''businessId'', ''chainId'', ''contractAddress'', ''name'',
                        ''description'', ''eventName'']"
proof -
  let ?shape = "[(''businessId'', zuuid), (''chainId'', zint), (''contractAddress'', zstring),
      (''name'', zstring), (''description'', zstring), (''eventName'', zstring)]"
  from assms have p: "zparse rt (ZObject ?shape) (JObj ps) = Inr vp"
    by (simp only: createContractEventSchema_def)
  have d: "distinct (map fst ?shape)" by simp
  note f = zparse_object_field [OF d p]
  have "hasProp ps ''businessId''"
    by (rule required_present [OF f [of "''businessId''" zuuid]]) (simp_all add: finish_def)
  moreover have "hasProp ps ''chainId''"
    by (rule required_present [OF f [of "''chainId''" zint]]) (simp_all add: finish_def)
  moreover have "hasProp ps ''contractAddress''"
    by (rule required_present [OF f [of "''contractAddress''" zstring]]) (simp_all add: finish_def)
  moreover have "hasProp ps ''name''"
    by (rule required_present [OF f [of "''name''" zstring]]) (simp_all add: finish_def)
  moreover have "hasProp ps ''description''"
    by (rule required_present [OF f [of "''description''" zstring]]) (simp_all add: finish_def)
  moreover have "hasProp ps ''eventName''"
    by (rule required_present [OF f [of "''eventName''" zstring]]) (simp_all add: finish_def)
  ultimately have "filter (hasProp ps) (map fst ?shape) = map fst ?shape"
    by simp
  with zparse_object_keys [OF p] that show thesis by auto
qed

text \<open>
  C3, as amended. An operation that is not rejected issues one request whose body
  object has these keys. The Wallets operations build the body from the fields that
  are not identifiers: the body object of \<open>create\<close> has exactly the keys
  \<open>chainId\<close>, \<open>name\<close> and \<open>description\<close> (an undefined \<open>description\<close> is left
  out of its JSON form), and neither \<open>businessId\<close> nor \<open>walletId\<close> is ever a key.
  \<open>ContractEvents.update\<close> and \<open>searchLogs\<close> send the validated object, whose keys
  are among those of a schema without identifiers. \<open>ContractEvents.create\<close> sends the
  validated object too, and there \<open>businessId\<close> is a key of the body next to the
  five other fields.
\<close>

theorem request_body_keys:
  "(rejected (Wallets_create rt client b ps)
      \<or> bodyKeys (Wallets_create rt client b ps) = [[''chainId'', ''name'', ''description'']])
   \<and> (rejected (Wallets_update rt client w ps)
      \<or> bodyKeys (Wallets_update rt client w ps) = [[''name'', ''description'']])
   \<and> (rejected (Wallets_transfer rt client w ps)
      \<or> bodyKeys (Wallets_transfer rt client w ps)
          = [[''destinationAccountAddress'', ''transferAmount'', ''memo'']])
   \<and> (rejected (Wallets_createDelegation rt client w ps)
      \<or> bodyKeys (Wallets_createDelegation rt client w ps)
          = [[''startTime'', ''endTime'', ''contractAddresses'', ''methods'', ''delegationData'']])
   \<and> (rejected (ContractEvents_create rt client b ps)
      \<or> bodyKeys (ContractEvents_create rt client b ps)
          = [[''businessId'', ''chainId'', ''contractAddress'', ''name'', ''description'',
              ''eventName'']])
   \<and> (rejected (ContractEvents_update rt client c ps)
      \<or> (\<exists>ks. bodyKeys (ContractEvents_update rt client c ps) = [ks]
              \<and> set ks \<subseteq> {''name'', ''description''}))
   \<and> (rejected (ContractEvents_searchLogs rt client c pso)
      \<or> (\<exists>ks. bodyKeys (ContractEvents_searchLogs rt client c pso) = [ks]
              \<and> set ks \<subseteq> {''startBlock'', ''endBlock'', ''topics''}))"
proof (intro conjI)
  show "rejected (Wallets_create rt client b ps)
      \<or> bodyKeys (Wallets_create rt client b ps) = [[''chainId'', ''name'', ''description'']]"
    by (simp add: Wallets_create_def bodyKeys_await parse_Inl split: sum.split)
  show "rejected (Wallets_update rt client w ps)
      \<or> bodyKeys (Wallets_update rt client w ps) = [[''name'', ''description'']]"
    by (simp add: Wallets_update_def bodyKeys_await parse_Inl split: sum.split)
  show "rejected (Wallets_transfer rt client w ps)
      \<or> bodyKeys (Wallets_transfer rt client w ps)
          = [[''destinationAccountAddress'', ''transferAmount'', ''memo'']]"
    by (simp add: Wallets_transfer_def bodyKeys_await parse_Inl split: sum.split)
  show "rejected (Wallets_createDelegation rt client w ps)
      \<or> bodyKeys (Wallets_createDelegation rt client w ps)
          = [[''startTime'', ''endTime'', ''contractAddresses'', ''methods'', ''delegationData'']]"
    by (simp add: Wallets_createDelegation_def bodyKeys_await parse_Inl split: sum.split)
  show "rejected (ContractEvents_create rt client b ps)
      \<or> bodyKeys (ContractEvents_create rt client b ps)
          = [[''businessId'', ''chainId'', ''contractAddress'', ''name'', ''description'',
              ''eventName'']]"
  proof (cases "parse rt createContractEventSchema
                  (JObj (spread [(''businessId'', JStr b)] ps)) :: 'a error + jsval")
    case (Inl err)
    then show ?thesis by (simp add: ContractEvents_create_def parse_Inl)
  next
    case (Inr vp)
    then have "zparse rt createContractEventSchema (JObj (spread [(''businessId'', JStr b)] ps)) = Inr vp"
      by (simp add: parse_Inr)
    then obtain out where "vp = JObj out"
      and "map fst out = [''businessId'', ''chainId'', ''contractAddress'', ''name'',
                        ''description'', ''eventName'']"
      by (rule createContractEvent_keys)
    with Inr show ?thesis by (simp add: ContractEvents_create_def bodyKeys_await)
  qed
  show "rejected (ContractEvents_update rt client c ps)
      \<or> (\<exists>ks. bodyKeys (ContractEvents_update rt client c ps) = [ks]
              \<and> set ks \<subseteq> {''name'', ''description''})"
  proof (cases "parse rt updateContractEventSchema (JObj ps) :: 'a error + jsval")
    case (Inl err)
    then show ?thesis by (simp add: ContractEvents_update_def parse_Inl)
  next
    case (Inr vp)
    then have "zparse rt (ZObject [(''name'', ZOptional zstring), (''description'', ZOptional zstring)])
                 (JObj ps) = Inr vp"
      by (simp only: parse_Inr updateContractEventSchema_def)
    then obtain out where "vp = JObj out"
      and "map fst out = filter (hasProp ps)
             (map fst [(''name'', ZOptional zstring), (''description'', ZOptional zstring)])"
      by (rule zparse_object_keys)
    with Inr show ?thesis by (auto simp: ContractEvents_update_def bodyKeys_await)
  qed
  show "rejected (ContractEvents_searchLogs rt client c pso)
      \<or> (\<exists>ks. bodyKeys (ContractEvents_searchLogs rt client c pso) = [ks]
              \<and> set ks \<subseteq> {''startBlock'', ''endBlock'', ''topics''})"
  proof (cases "parse rt searchContractEventLogsSchema (JObj (orEmpty pso)) :: 'a error + jsval")
    case (Inl err)
    then show ?thesis by (simp add: ContractEvents_searchLogs_def parse_Inl)
  next
    case (Inr vp)
    then have "zparse rt (ZObject [(''startBlock'', optnull zint), (''endBlock'', optnull zint),
                  (''topics'', optnull (ZRecord zstring))])
                 (JObj (orEmpty pso)) = Inr vp"
      by (simp only: parse_Inr searchContractEventLogsSchema_def)
    then obtain out where "vp = JObj out"
      and "map fst out = filter (hasProp (orEmpty pso))
             (map fst [(''startBlock'', optnull zint), (''endBlock'', optnull zint),
                  (''topics'', optnull (ZRecord zstring))])"
      by (rule zparse_object_keys)
    with Inr show ?thesis by (auto simp: ContractEvents_searchLogs_def bodyKeys_await)
  qed
qed

text \<open>
  A valid \<open>Wallets.create\<close> without a description: the body object has the three
  keys, and its JSON form leaves the undefined \<open>description\<close> out.
\<close>

theorem request_body_keys_witness:
  "\<not> rejected (Wallets_create node (respond JNull) ''123e4567-e89b-12d3-a456-426614174000''
          [(''chainId'', JNum 1), (''name'', JStr ''main'')])
   \<and> bodyKeys (Wallets_create node (respond JNull) ''123e4567-e89b-12d3-a456-426614174000''
          [(''chainId'', JNum 1), (''name'', JStr ''main'')])
       = [[''chainId'', ''name'', ''description'']]
   \<and> map (\<lambda>req. jsonForm (body req))
        (fst (Wallets_create node (respond JNull) ''123e4567-e89b-12d3-a456-426614174000''
          [(''chainId'', JNum 1), (''name'', JStr ''main'')]))
       = [JObj [(''chainId'', JNum 1), (''name'', JStr ''main'')]]"
proof -
  have req: "fst (Wallets_create node (respond JNull) ''123e4567-e89b-12d3-a456-426614174000''
          [(''chainId'', JNum 1), (''name'', JStr ''main'')])
      = [Request POST ''/business/123e4567-e89b-12d3-a456-426614174000/wallets''
           (JObj [(''chainId'', JNum 1), (''name'', JStr ''main''), (''description'', JUndefined)])]"
    by (simp add: Wallets_create_def createWalletSchema_def parse_def finish_def
        getProp_def hasProp_def setProp_def member_def await_request_def node_def uuidV3_def
        isHex_def isInteger_def)
  then have nr: "\<not> rejected (Wallets_create node (respond JNull)
          ''123e4567-e89b-12d3-a456-426614174000'' [(''chainId'', JNum 1), (''name'', JStr ''main'')])"
    by (simp add: rejected_def)
  from request_body_keys [of node "respond JNull" "''123e4567-e89b-12d3-a456-426614174000''"
      "[(''chainId'', JNum 1), (''name'', JStr ''main'')]"] nr
  have "bodyKeys (Wallets_create node (respond JNull) ''123e4567-e89b-12d3-a456-426614174000''
          [(''chainId'', JNum 1), (''name'', JStr ''main'')])
       = [[''chainId'', ''name'', ''description'']]"
    by blast
  with nr req show ?thesis by simp
qed

text \<open>
  C3 as stated fails: the body of \<open>ContractEvents.create\<close> is the whole validated
  object, \<open>businessId\<close> included.
\<close>

theorem event_body_has_businessId_counterexample:
  "fst (ContractEvents_create node (respond JNull) ''123e4567-e89b-12d3-a456-426614174000''
          [(''chainId'', JNum 1), (''contractAddress'', JStr ''0xabc''), (''name'', JStr ''n''),
           (''description'', JStr ''d''), (''eventName'', JStr ''Transfer'')])
     = [Request POST ''/business/123e4567-e89b-12d3-a456-426614174000/events''
          (JObj [(''businessId'', JStr ''123e4567-e89b-12d3-a456-426614174000''),
                 (''chainId'', JNum 1), (''contractAddress'', JStr ''0xabc''),
                 (''name'', JStr ''n''), (''description'', JStr ''d''),
                 (''eventName'', JStr ''Transfer'')])]"
  by (simp add: ContractEvents_create_def createContractEventSchema_def parse_def finish_def
        getProp_def hasProp_def setProp_def member_def await_request_def node_def uuidV3_def
        isHex_def isInteger_def)

section \<open>C4: optional fields in the JSON body\<close>

text \<open>
  C4, as amended. For the create and update operations and each optional body field:
  when the params object has distinct keys, the field is a key of the JSON body of the
  request exactly when it was supplied with a value other than \<open>undefined\<close>; a field
  supplied as \<open>undefined\<close> or not at all does not appear, and a field supplied as
  \<open>null\<close>, which the nullable schemas of the Wallets operations accept, is sent as
  a JSON \<open>null\<close>.
\<close>

theorem optional_fields_sent:
  assumes ds: "distinct (map fst ps)"
  shows "sendsOptional ps ''description'' (Wallets_create rt client b ps)
       \<and> sendsOptional ps ''name'' (Wallets_update rt client w ps)
       \<and> sendsOptional ps ''description'' (Wallets_update rt client w ps)
       \<and> sendsOptional ps ''startTime'' (Wallets_createDelegation rt client w ps)
       \<and> sendsOptional ps ''endTime'' (Wallets_createDelegation rt client w ps)
       \<and> sendsOptional ps ''contractAddresses'' (Wallets_createDelegation rt client w ps)
       \<and> sendsOptional ps ''methods'' (Wallets_createDelegation rt client w ps)
       \<and> sendsOptional ps ''name'' (ContractEvents_update rt client c ps)
       \<and> sendsOptional ps ''description'' (ContractEvents_update rt client c ps)"
proof -
  have create: "sendsOptional ps ''description'' (Wallets_create rt client b ps)"
  proof (cases "parse rt createWalletSchema
                  (JObj (spread [(''businessId'', JStr b)] ps)) :: 'a error + jsval")
    case (Inl err)
    then show ?thesis by (simp add: Wallets_create_def sendsOptional_throw)
  next
    case (Inr vp)
    let ?shape = "[(''businessId'', zuuid), (''chainId'', zposint), (''name'', zstring),
                   (''description'', optnull zstring)]"
    from Inr have p: "zparse rt (ZObject ?shape) (JObj (spread [(''businessId'', JStr b)] ps)) = Inr vp"
      by (simp only: parse_Inr createWalletSchema_def)
    have d: "distinct (map fst ?shape)" by simp
    note v = validated_field [OF d ds p]
    from v [of "''description''" "optnull zstring"]
    have "(member vp ''description'' = JUndefined) = (getProp ps ''description'' = JUndefined)"
      and "getProp ps ''description'' = JNull \<Longrightarrow> member vp ''description'' = JNull"
      by (simp_all add: hasProp_def)
    with Inr show ?thesis
      by (simp add: Wallets_create_def sendsOptional_await jsonKeys_Cons jsonKeys_Nil
            jsonForm_member_Cons jsonForm_member_Nil del: jsonForm.simps(1))
  qed
  have update: "sendsOptional ps ''name'' (Wallets_update rt client w ps)
      \<and> sendsOptional ps ''description'' (Wallets_update rt client w ps)"
  proof (cases "parse rt updateWalletSchema
                  (JObj (spread [(''walletId'', JStr w)] ps)) :: 'a error + jsval")
    case (Inl err)
    then show ?thesis by (simp add: Wallets_update_def sendsOptional_throw)
  next
    case (Inr vp)
    let ?shape = "[(''walletId'', zuuid), (''name'', optnull zstring),
                   (''description'', optnull zstring)]"
    from Inr have p: "zparse rt (ZObject ?shape) (JObj (spread [(''walletId'', JStr w)] ps)) = Inr vp"
      by (simp only: parse_Inr updateWalletSchema_def)
    have d: "distinct (map fst ?shape)" by simp
    note v = validated_field [OF d ds p]
    from v [of "''name''" "optnull zstring"] v [of "''description''" "optnull zstring"]
    have "(member vp ''name'' = JUndefined) = (getProp ps ''name'' = JUndefined)"
      and "getProp ps ''name'' = JNull \<Longrightarrow> member vp ''name'' = JNull"
      and "(member vp ''description'' = JUndefined) = (getProp ps ''description'' = JUndefined)"
      and "getProp ps ''description'' = JNull \<Longrightarrow> member vp ''description'' = JNull"
      by (simp_all add: hasProp_def)
    with Inr show ?thesis
      by (simp add: Wallets_update_def sendsOptional_await jsonKeys_Cons jsonKeys_Nil
            jsonForm_member_Cons jsonForm_member_Nil del: jsonForm.simps(1))
  qed
  have delegation: "sendsOptional ps ''startTime'' (Wallets_createDelegation rt client w ps)
       \<and> sendsOptional ps ''endTime'' (Wallets_createDelegation rt client w ps)
       \<and> sendsOptional ps ''contractAddresses'' (Wallets_createDelegation rt client w ps)
       \<and> sendsOptional ps ''methods'' (Wallets_createDelegation rt client w ps)"
  proof (cases "parse rt createDelegationSchema
                  (JObj (spread [(''walletId'', JStr w)] ps)) :: 'a error + jsval")
    case (Inl err)
    then show ?thesis by (simp add: Wallets_createDelegation_def sendsOptional_throw)
  next
    case (Inr vp)
    let ?shape = "[(''walletId'', zuuid), (''startTime'', optnull znumber),
      (''endTime'', optnull znumber), (''contractAddresses'', optnull (ZArray zstring)),
      (''methods'', optnull (ZArray zstring)), (''delegationData'', zstring)]"
    from Inr have p: "zparse rt (ZObject ?shape) (JObj (spread [(''walletId'', JStr w)] ps)) = Inr vp"
      by (simp only: parse_Inr createDelegationSchema_def)
    have d: "distinct (map fst ?shape)" by simp
    note v = validated_field [OF d ds p]
    from v [of "''startTime''" "optnull znumber"] v [of "''endTime''" "optnull znumber"]
      v [of "''contractAddresses''" "optnull (ZArray zstring)"]
      v [of "''methods''" "optnull (ZArray zstring)"]
    have "(member vp ''startTime'' = JUndefined) = (getProp ps ''startTime'' = JUndefined)"
      and "getProp ps ''startTime'' = JNull \<Longrightarrow> member vp ''startTime'' = JNull"
      and "(member vp ''endTime'' = JUndefined) = (getProp ps ''endTime'' = JUndefined)"
      and "getProp ps ''endTime'' = JNull \<Longrightarrow> member vp ''endTime'' = JNull"
      and "(member vp ''contractAddresses'' = JUndefined) = (getProp ps ''contractAddresses'' = JUndefined)"
      and "getProp ps ''contractAddresses'' = JNull \<Longrightarrow> member vp ''contractAddresses'' = JNull"
      and "(member vp ''methods'' = JUndefined) = (getProp ps ''methods'' = JUndefined)"
      and "getProp ps ''methods'' = JNull \<Longrightarrow> member vp ''methods'' = JNull"
      by (simp_all add: hasProp_def)
    with Inr show ?thesis
      by (simp add: Wallets_createDelegation_def sendsOptional_await jsonKeys_Cons jsonKeys_Nil
            jsonForm_member_Cons jsonForm_member_Nil del: jsonForm.simps(1))
  qed
  have event: "sendsOptional ps ''name'' (ContractEvents_update rt client c ps)
       \<and> sendsOptional ps ''description'' (ContractEvents_update rt client c ps)"
  proof (cases "parse rt updateContractEventSchema (JObj ps) :: 'a error + jsval")
    case (Inl err)
    then show ?thesis by (simp add: ContractEvents_update_def sendsOptional_throw)
  next
    case (Inr vp)
    let ?shape = "[(''name'', ZOptional zstring), (''description'', ZOptional zstring)]"
    from Inr have p: "zparse rt (ZObject ?shape) (JObj ps) = Inr vp"
      by (simp only: parse_Inr updateContractEventSchema_def)
    have d: "distinct (map fst ?shape)" by simp
    from zparse_object_field [OF d p, of "''name''" "ZOptional zstring"]
    have n: "getProp ps ''name'' \<noteq> JNull"
      by (auto split: if_splits)
    from zparse_object_field [OF d p, of "''description''" "ZOptional zstring"]
    have de: "getProp ps ''description'' \<noteq> JNull"
      by (auto split: if_splits)
    from jsonKeys_validated [OF p]
    have "jsonKeys vp = filter (\<lambda>k. getProp ps k \<noteq> JUndefined) [''name'', ''description'']"
      by simp
    with Inr n de show ?thesis
      by (simp add: ContractEvents_update_def sendsOptional_await)
  qed
  from create update delegation event show ?thesis by blast
qed

theorem optional_fields_sent_witness:
  "distinct (map fst [(''name'', JNull), (''description'', JStr ''d'')])
   \<and> sendsOptional [(''name'', JNull), (''description'', JStr ''d'')] ''name''
        (Wallets_update node (respond JNull) ''123e4567-e89b-12d3-a456-426614174000''
           [(''name'', JNull), (''description'', JStr ''d'')])
   \<and> fst (Wallets_update node (respond JNull) ''123e4567-e89b-12d3-a456-426614174000''
           [(''name'', JNull), (''description'', JStr ''d'')])
      = [Request PUT ''/wallets/123e4567-e89b-12d3-a456-426614174000''
           (JObj [(''name'', JNull), (''description'', JStr ''d'')])]"
proof -
  have ds: "distinct (map fst [(''name'', JNull), (''description'', JStr ''d'')])"
    by simp
  have "fst (Wallets_update node (respond JNull) ''123e4567-e89b-12d3-a456-426614174000''
           [(''name'', JNull), (''description'', JStr ''d'')])
      = [Request PUT ''/wallets/123e4567-e89b-12d3-a456-426614174000''
           (JObj [(''name'', JNull), (''description'', JStr ''d'')])]"
    by (simp add: Wallets_update_def updateWalletSchema_def parse_def finish_def
        getProp_def hasProp_def setProp_def member_def await_request_def node_def uuidV3_def
        isHex_def)
  with ds optional_fields_sent [OF ds, of node "respond JNull" _ "''123e4567-e89b-12d3-a456-426614174000''"]
  show ?thesis by blast
qed

text \<open>
  C4 as stated fails: \<open>Wallets.update\<close> with \<open>name\<close> explicitly \<open>null\<close> sends
  the body \<open>{"name": null}\<close>.
\<close>

theorem null_field_sent_counterexample:
  "map (\<lambda>req. jsonForm (body req))
     (fst (Wallets_update node (respond JNull) ''123e4567-e89b-12d3-a456-426614174000''
             [(''name'', JNull)]))
     = [JObj [(''name'', JNull)]]"
  by (simp add: Wallets_update_def updateWalletSchema_def parse_def finish_def
        getProp_def hasProp_def setProp_def member_def await_request_def node_def uuidV3_def
        isHex_def)

section \<open>C5: the query string of getSignature\<close>

text \<open>
  C5. A \<open>getSignature\<close> call that passes validation issues one GET whose path is
  \<open>/wallets/{walletId}/signature/{type}\<close> followed by the query string
  \<open>?contractAddress=...&destinationAddress=...\<close> and then, in this order, one
  \<open>&key=...\<close> for those of \<open>amount\<close>, \<open>validUntil\<close>, \<open>validAfter\<close> and
  \<open>fromAddress\<close> that were supplied with a value that is neither \<open>null\<close> nor
  \<open>undefined\<close>, each value being the form-encoded string of the supplied one; an
  optional parameter that is absent is not a key of the query string. The params
  object has distinct keys; the wallet ID and the type in the path are the supplied
  ones when the params object carries neither key.
\<close>

theorem signature_query:
  assumes ds: "distinct (map fst ps)"
  shows "rejected (Wallets_getSignature rt client w ty ps)
     \<or> (\<exists>wid t. uuidRegex rt wid \<and> (\<not> hasProp ps ''walletId'' \<longrightarrow> wid = w)
          \<and> t \<in> {''erc3009'', ''permit2''} \<and> (\<not> hasProp ps ''type'' \<longrightarrow> t = ty)
          \<and> fst (Wallets_getSignature rt client w ty ps) =
           [Request GET
              (''/wallets/'' @ wid @ ''/signature/'' @ t
               @ ''?contractAddress='' @ formEncode (toString rt (getProp ps ''contractAddress''))
               @ ''&destinationAddress='' @ formEncode (toString rt (getProp ps ''destinationAddress''))
               @ concat (map (\<lambda>k. ''&'' @ k @ ''='' @ formEncode (toString rt (getProp ps k)))
                   (filter (\<lambda>k. present (getProp ps k))
                      [''amount'', ''validUntil'', ''validAfter'', ''fromAddress''])))
              JUndefined])"
proof (cases "parse rt getSignatureSchema
                (JObj (spread [(''walletId'', JStr w), (''type'', JStr ty)] ps)) :: 'a error + jsval")
  case (Inl err)
  then show ?thesis by (simp add: Wallets_getSignature_def parse_Inl)
next
  case (Inr vp)
  let ?shape = "[(''walletId'', zuuid), (''type'', ZEnum [''erc3009'', ''permit2'']),
      (''contractAddress'', zstring), (''destinationAddress'', zstring),
      (''amount'', optnull zstring), (''validUntil'', optnull znumber),
      (''validAfter'', optnull znumber), (''fromAddress'', optnull zstring)]"
  let ?cand = "spread [(''walletId'', JStr w), (''type'', JStr ty)] ps"
  from Inr have p: "zparse rt (ZObject ?shape) (JObj ?cand) = Inr vp"
    by (simp only: parse_Inr getSignatureSchema_def)
  have d: "distinct (map fst ?shape)" by simp
  note f = zparse_object_field [OF d p]
  have other: "getProp ?cand k = getProp ps k" if "k \<noteq> ''walletId''" "k \<noteq> ''type''" for k
    using that by (intro getProp_spread_other [OF ds]) (simp add: hasProp_def)
  from p obtain wid where wid: "member vp ''walletId'' = JStr wid"
    and gw: "getProp ?cand ''walletId'' = JStr wid" and uw: "uuidRegex rt wid"
    by (rule validated_id)
  have ww: "wid = w" if "\<not> hasProp ps ''walletId''"
    using gw that by (simp add: getProp_spread_absent getProp_head)
  have "zparse rt (ZEnum [''erc3009'', ''permit2'']) (getProp ?cand ''type'') = Inr (member vp ''type'')"
    by (rule f) simp
  from zparse_enum_mem [OF this] obtain t where t: "member vp ''type'' = JStr t"
    and gt: "getProp ?cand ''type'' = JStr t" and te: "t \<in> {''erc3009'', ''permit2''}"
    by auto
  have tt: "t = ty" if "\<not> hasProp ps ''type''"
    using gt that by (simp add: getProp_spread_absent getProp_Cons)
  have "zparse rt zstring (getProp ?cand ''contractAddress'') = Inr (member vp ''contractAddress'')"
    by (rule f) simp
  from zparse_string_id [OF this]
  have ca: "member vp ''contractAddress'' = getProp ps ''contractAddress''"
    by (simp add: other)
  have "zparse rt zstring (getProp ?cand ''destinationAddress'') = Inr (member vp ''destinationAddress'')"
    by (rule f) simp
  from zparse_string_id [OF this]
  have da: "member vp ''destinationAddress'' = getProp ps ''destinationAddress''"
    by (simp add: other)
  have "zparse rt (optnull zstring) (getProp ?cand ''amount'') = Inr (member vp ''amount'')"
    by (rule f) simp
  from zparse_optnull_string_id [OF this]
  have am: "member vp ''amount'' = getProp ps ''amount''"
    by (simp add: other)
  have "zparse rt (optnull znumber) (getProp ?cand ''validUntil'') = Inr (member vp ''validUntil'')"
    by (rule f) simp
  from zparse_optnull_number_id [OF this]
  have vu: "member vp ''validUntil'' = getProp ps ''validUntil''"
    by (simp add: other)
  have "zparse rt (optnull znumber) (getProp ?cand ''validAfter'') = Inr (member vp ''validAfter'')"
    by (rule f) simp
  from zparse_optnull_number_id [OF this]
  have va: "member vp ''validAfter'' = getProp ps ''validAfter''"
    by (simp add: other)
  have "zparse rt (optnull zstring) (getProp ?cand ''fromAddress'') = Inr (member vp ''fromAddress'')"
    by (rule f) simp
  from zparse_optnull_string_id [OF this]
  have fa: "member vp ''fromAddress'' = getProp ps ''fromAddress''"
    by (simp add: other)
  have keys: "formEncode k = k"
    if "k \<in> set [''amount'', ''validUntil'', ''validAfter'', ''fromAddress'']" for k
    using that by (auto simp: formEncode_def encodeByte_def unreserved_def)
  have opt: "map (\<lambda>k. ''&'' @ formEncode k @ ''='' @ formEncode (toString rt (getProp ps k)))
               (filter (\<lambda>k. present (getProp ps k))
                  [''amount'', ''validUntil'', ''validAfter'', ''fromAddress''])
           = map (\<lambda>k. ''&'' @ k @ ''='' @ formEncode (toString rt (getProp ps k)))
               (filter (\<lambda>k. present (getProp ps k))
                  [''amount'', ''validUntil'', ''validAfter'', ''fromAddress''])"
  proof (rule map_cong [OF refl])
    fix k
    assume "k \<in> set (filter (\<lambda>k. present (getProp ps k))
                  [''amount'', ''validUntil'', ''validAfter'', ''fromAddress''])"
    then have "k \<in> set [''amount'', ''validUntil'', ''validAfter'', ''fromAddress'']"
      by (simp del: filter.simps)
    from keys [OF this]
    show "''&'' @ formEncode k @ ''='' @ formEncode (toString rt (getProp ps k))
        = ''&'' @ k @ ''='' @ formEncode (toString rt (getProp ps k))"
      by simp
  qed
  have fixed: "formEncode ''contractAddress'' = ''contractAddress''"
    "formEncode ''destinationAddress'' = ''destinationAddress''"
    by (simp_all add: formEncode_def encodeByte_def unreserved_def)
  have "fst (Wallets_getSignature rt client w ty ps) =
           [Request GET
              (''/wallets/'' @ wid @ ''/signature/'' @ t @ ''?'' @
               URLSearchParams_toString
                 (map (\<lambda>k. (k, toString rt (getProp ps k)))
                    ([''contractAddress'', ''destinationAddress'']
                     @ filter (\<lambda>k. present (getProp ps k))
                         [''amount'', ''validUntil'', ''validAfter'', ''fromAddress''])))
              JUndefined]"
    using Inr
    by (simp add: Wallets_getSignature_def Let_def await_request_def wid t ca da am vu va fa
          appendIfPresent_def)
  also have "URLSearchParams_toString
                 (map (\<lambda>k. (k, toString rt (getProp ps k)))
                    ([''contractAddress'', ''destinationAddress'']
                     @ filter (\<lambda>k. present (getProp ps k))
                         [''amount'', ''validUntil'', ''validAfter'', ''fromAddress'']))
      = ''contractAddress='' @ formEncode (toString rt (getProp ps ''contractAddress''))
        @ ''&destinationAddress='' @ formEncode (toString rt (getProp ps ''destinationAddress''))
        @ concat (map (\<lambda>k. ''&'' @ k @ ''='' @ formEncode (toString rt (getProp ps k)))
            (filter (\<lambda>k. present (getProp ps k))
               [''amount'', ''validUntil'', ''validAfter'', ''fromAddress'']))"
    by (subst opt [symmetric])
       (simp add: URLSearchParams_toString_Cons fixed o_def del: filter.simps)
  finally have "fst (Wallets_getSignature rt client w ty ps) =
           [Request GET
              (''/wallets/'' @ wid @ ''/signature/'' @ t
               @ ''?contractAddress='' @ formEncode (toString rt (getProp ps ''contractAddress''))
               @ ''&destinationAddress='' @ formEncode (toString rt (getProp ps ''destinationAddress''))
               @ concat (map (\<lambda>k. ''&'' @ k @ ''='' @ formEncode (toString rt (getProp ps k)))
                   (filter (\<lambda>k. present (getProp ps k))
                      [''amount'', ''validUntil'', ''validAfter'', ''fromAddress''])))
              JUndefined]"
    by simp
  with uw ww te tt show ?thesis by blast
qed

text \<open>
  The spec's example, with the optional parameters absent, and a call that supplies
  \<open>amount\<close> and \<open>validUntil\<close> and passes \<open>fromAddress\<close> as \<open>null\<close>.
\<close>

theorem signature_query_witness:
  "distinct (map fst [(''contractAddress'', JStr ''0xabc''), (''destinationAddress'', JStr ''0xdef'')])
   \<and> \<not> rejected (Wallets_getSignature node (respond JNull) ''123e4567-e89b-12d3-a456-426614174000'' ''erc3009''
            [(''contractAddress'', JStr ''0xabc''), (''destinationAddress'', JStr ''0xdef'')])
   \<and> fst (Wallets_getSignature node (respond JNull) ''123e4567-e89b-12d3-a456-426614174000'' ''erc3009''
            [(''contractAddress'', JStr ''0xabc''), (''destinationAddress'', JStr ''0xdef'')])
       = [Request GET
            ''/wallets/123e4567-e89b-12d3-a456-426614174000/signature/erc3009?contractAddress=0xabc&destinationAddress=0xdef''
            JUndefined]
   \<and> distinct (map fst
            [(''contractAddress'', JStr ''0xabc''), (''destinationAddress'', JStr ''0xdef''),
             (''amount'', JStr ''1e+21''), (''fromAddress'', JNull), (''validUntil'', JNum 1700000000)])
   \<and> fst (Wallets_getSignature node (respond JNull) ''123e4567-e89b-12d3-a456-426614174000'' ''permit2''
            [(''contractAddress'', JStr ''0xabc''), (''destinationAddress'', JStr ''0xdef''),
             (''amount'', JStr ''1e+21''), (''fromAddress'', JNull), (''validUntil'', JNum 1700000000)])
       = [Request GET
            ''/wallets/123e4567-e89b-12d3-a456-426614174000/signature/permit2?contractAddress=0xabc&destinationAddress=0xdef&amount=1e%2B21&validUntil=1700000000''
            JUndefined]"
proof -
  let ?p1 = "[(''contractAddress'', JStr ''0xabc''), (''destinationAddress'', JStr ''0xdef'')]"
  let ?p2 = "[(''contractAddress'', JStr ''0xabc''), (''destinationAddress'', JStr ''0xdef''),
             (''amount'', JStr ''1e+21''), (''fromAddress'', JNull), (''validUntil'', JNum 1700000000)]"
  have d1: "distinct (map fst ?p1)" and d2: "distinct (map fst ?p2)" by simp_all
  have n1: "\<not> rejected (Wallets_getSignature node (respond JNull) ''123e4567-e89b-12d3-a456-426614174000'' ''erc3009'' ?p1)"
    by (simp add: rejected_def Wallets_getSignature_def getSignatureSchema_def parse_def finish_def
        getProp_def hasProp_def setProp_def member_def await_request_def node_def uuidV3_def
        isHex_def Let_def)
  have n2: "\<not> rejected (Wallets_getSignature node (respond JNull) ''123e4567-e89b-12d3-a456-426614174000'' ''permit2'' ?p2)"
    by (simp add: rejected_def Wallets_getSignature_def getSignatureSchema_def parse_def finish_def
        getProp_def hasProp_def setProp_def member_def await_request_def node_def uuidV3_def
        isHex_def Let_def
        isInteger_def)
  from signature_query [OF d1, of node "respond JNull" "''123e4567-e89b-12d3-a456-426614174000''" "''erc3009''"] n1
  have 1: "fst (Wallets_getSignature node (respond JNull) ''123e4567-e89b-12d3-a456-426614174000'' ''erc3009'' ?p1)
       = [Request GET
            ''/wallets/123e4567-e89b-12d3-a456-426614174000/signature/erc3009?contractAddress=0xabc&destinationAddress=0xdef''
            JUndefined]"
    by (auto simp: hasProp_def getProp_def present_def formEncode_def encodeByte_def
          unreserved_def)
  from signature_query [OF d2, of node "respond JNull" "''123e4567-e89b-12d3-a456-426614174000''" "''permit2''"] n2
  have 2: "fst (Wallets_getSignature node (respond JNull) ''123e4567-e89b-12d3-a456-426614174000'' ''permit2'' ?p2)
       = [Request GET
            ''/wallets/123e4567-e89b-12d3-a456-426614174000/signature/permit2?contractAddress=0xabc&destinationAddress=0xdef&amount=1e%2B21&validUntil=1700000000''
            JUndefined]"
    by (auto simp: hasProp_def getProp_def present_def formEncode_def encodeByte_def
          unreserved_def node_def decimal_def isSafeInteger_def isInteger_def hexDigit_def)
  from d1 n1 1 d2 2 show ?thesis by blast
qed

section \<open>C6: absent filters are left out of the query string\<close>



section \<open>C7: searchLogs without a params argument\<close>

text \<open>
  C7. \<open>ContractEvents.searchLogs\<close> called without params validates the empty object in
  their place: no validation error arises before the request, and the call issues
  exactly one POST to \<open>/events/{contractEventId}/search\<close> whose body is the empty
  object, so that none of \<open>startBlock\<close>, \<open>endBlock\<close>, \<open>topics\<close> is in it. What
  the call then returns is the parsed response, or the transport's error.
\<close>

theorem searchLogs_without_params:
  "fst (ContractEvents_searchLogs rt client c None)
     = [Request POST (''/events/'' @ c @ ''/search'') (JObj [])]
   \<and> snd (ContractEvents_searchLogs rt client c None)
     = (case client (Request POST (''/events/'' @ c @ ''/search'') (JObj [])) of
          Inl e \<Rightarrow> Inl (TransportError e)
        | Inr response \<Rightarrow> parse rt contractEventSearchResultSchema response)
   \<and> jsonForm (JObj []) = JObj []"
  by (simp add: ContractEvents_searchLogs_def searchContractEventLogsSchema_def orEmpty_def
        parse_def finish_def getProp_def hasProp_def await_request_def)

section \<open>C8: the path of deleteDelegation\<close>

text \<open>
  C8. For every delegation ID that passes UUID validation, \<open>Wallets.deleteDelegation\<close>
  issues exactly one DELETE request, to \<open>/delegation/\<close> followed by the ID, which is
  not the plural \<open>/delegations/\<close> followed by the ID.
\<close>

theorem deleteDelegation_path:
  assumes "uuidRegex rt i"
  shows "fst (Wallets_deleteDelegation rt client i)
           = [Request DELETE (''/delegation/'' @ i) JUndefined]
         \<and> ''/delegation/'' @ i \<noteq> ''/delegations/'' @ i"
  using assms
  by (simp add: Wallets_deleteDelegation_def deleteDelegationSchema_def parse_def finish_def
        getProp_def hasProp_def member_def await_request_def)

theorem deleteDelegation_path_witness:
  "uuidRegex node ''123e4567-e89b-12d3-a456-426614174000''
   \<and> fst (Wallets_deleteDelegation node (respond JNull) ''123e4567-e89b-12d3-a456-426614174000'')
       = [Request DELETE ''/delegation/123e4567-e89b-12d3-a456-426614174000'' JUndefined]"
proof -
  have u: "uuidRegex node ''123e4567-e89b-12d3-a456-426614174000''"
    by (simp add: node_def uuidV3_def isHex_def)
  with deleteDelegation_path [OF u, of "respond JNull"] show ?thesis by simp
qed

section \<open>C9: validating a conforming wallet changes nothing\<close>

lemma distinctKeys_walletSchema: "distinctKeys walletSchema"
  by (simp add: walletSchema_def walletShape_def accountBalanceDetailsSchema_def)

text \<open>
  C9. For every object that conforms exactly to the Wallet schema (every declared
  field present and valid, no other field), validation against the Wallet schema
  succeeds and returns an object deeply equal to the input. The lemma
  \<open>parse_conforming\<close> above says so for every schema whose shapes declare each key
  once.
\<close>

theorem wallet_validation_idempotent:
  assumes "conformsTo rt walletSchema v"
  shows "\<exists>w. (parse rt walletSchema v :: 'e error + jsval) = Inr w \<and> deepEqual w v"
  using parse_conforming [OF distinctKeys_walletSchema assms]
  by (simp add: parse_Inr del: deepEqual.simps)

text \<open>The example wallet conforms; validation returns it with the keys in the order of the schema.\<close>

lemma exampleWallet_conforms: "conformsTo node walletSchema exampleWallet"
  by (simp add: exampleWallet_def walletSchema_def walletShape_def accountBalanceDetailsSchema_def
        getProp_def node_def uuidV3_def isHex_def isInteger_def)

lemma exampleWallet_parsed:
  "zparse node walletSchema exampleWallet = Inr (JObj
     [(''id'', JStr ''123e4567-e89b-12d3-a456-426614174000''),
      (''accountAddress'', JStr ''0xabc''),
      (''businessId'', JStr ''123e4567-e89b-12d3-a456-426614174001''),
      (''userId'', JNull),
      (''chainId'', JNum 1),
      (''name'', JStr ''main''),
      (''description'', JStr ''d''),
      (''isAdmin'', JBool False),
      (''accountBalanceDetails'', JObj
         [(''type'', JNum 0),
          (''ticker'', JStr ''ETH''),
          (''chainId'', JNum 1),
          (''tokenAddress'', JStr []),
          (''accountAddress'', JStr ''0xabc''),
          (''balance'', JStr ''10''),
          (''decimals'', JNum 18)]),
      (''erc7702ContractAddress'', JNull),
      (''updated'', JNum (3401234567 / 2)),
      (''created'', JNum 1700000000)])"
  by (simp add: exampleWallet_def walletSchema_def walletShape_def accountBalanceDetailsSchema_def
        getProp_def hasProp_def finish_def node_def uuidV3_def isHex_def isInteger_def)

theorem wallet_validation_idempotent_witness:
  "conformsTo node walletSchema exampleWallet
   \<and> (\<exists>w. (parse node walletSchema exampleWallet :: unit error + jsval) = Inr w
          \<and> deepEqual w exampleWallet)"
  using exampleWallet_conforms wallet_validation_idempotent [OF exampleWallet_conforms]
  by blast

section \<open>C10: Wallets.list and Wallets.listDelegations iterate the raw params\<close>


text \<open>
  The undeclared keys \<open>foo\<close> and \<open>x-trace\<close> are on the wire, and absent from the
  validated object.
\<close>

lemma undeclared_key_example:
  "zparse node listWalletsSchema
        (JObj (spread [(''businessId'', JStr ''123e4567-e89b-12d3-a456-426614174000'')]
           [(''chainId'', JNum 5), (''foo'', JStr ''a b''), (''name'', JNull), (''page'', JNum 2)]))
     = Inr (JObj [(''businessId'', JStr ''123e4567-e89b-12d3-a456-426614174000''),
                  (''chainId'', JNum 5), (''page'', JNum 2), (''name'', JNull)])
   \<and> zparse node listDelegationsSchema
        (JObj (spread [(''walletId'', JStr ''123e4567-e89b-12d3-a456-426614174000'')]
           [(''pageSize'', JNum 10), (''x-trace'', JBool True), (''page'', JUndefined)]))
     = Inr (JObj [(''walletId'', JStr ''123e4567-e89b-12d3-a456-426614174000''),
                  (''pageSize'', JNum 10), (''page'', JUndefined)])"
  by (simp add: listWalletsSchema_def listDelegationsSchema_def finish_def
        getProp_def hasProp_def setProp_def node_def uuidV3_def isHex_def isInteger_def)


end
